theory Spec2Isabelle
  imports Main "HOL-Library.Sublist"
begin

section \<open>Python values and exceptions\<close>

text \<open>
  An exception raised by code that the library calls on a value it is handed (a
  \<open>__str__\<close> method) is described by the name of its class and the names of the classes
  that class inherits from. \<open>isinstance(x, C)\<close> holds when \<open>C\<close> is the class of \<open>x\<close> or
  one of the classes it inherits from; an \<open>except\<close> clause catches by this test.
\<close>

datatype pyexc = PyExc string "string list"

fun isinstance_exc :: "pyexc \<Rightarrow> string \<Rightarrow> bool" where
  "isinstance_exc (PyExc cls ancestors) c = (cls = c \<or> c \<in> set ancestors)"

text \<open>
  The exceptions that the modelled code raises itself or lets propagate.
  \<open>ArtWorkTypeError\<close> is the library's own error; \<open>IndexError\<close>, \<open>KeyError\<close>,
  \<open>TypeError\<close> and \<open>ValueError\<close> are Python's; \<open>BadZipFile\<close> comes from the
  \<open>zipfile\<close> module; \<open>OtherError\<close> stands for every other exception of the transport,
  of validation and of the archive; \<open>Raised\<close> is an exception of a \<open>__str__\<close> method
  that propagates.
\<close>

datatype error =
    ArtWorkTypeError string
  | IndexError
  | KeyError string
  | TypeError
  | ValueError
  | BadZipFile
  | OtherError string
  | Raised pyexc

text \<open>
  Values that travel through query parameters. \<open>PyClassList\<close> is the builtin class
  object \<open>list\<close>: the only value \<open>x\<close> for which the identity test \<open>x is list\<close> holds.
\<close>

datatype pyval =
    PyNone
  | PyInt int
  | PyStr string
  | PyBool bool
  | PyList "pyval list"
  | PyClassList

type_synonym bytes = "nat list"

section \<open>\<open>model/artwork.py\<close>: the artwork type\<close>

datatype ArtWorkType = illust | ugoira | manga | novel

fun value_of :: "ArtWorkType \<Rightarrow> string" where
  "value_of illust = ''illust''"
| "value_of ugoira = ''ugoira''"
| "value_of manga = ''manga''"
| "value_of novel = ''novel''"

text \<open>
  The right operand of \<open>==\<close> is any Python object: an \<open>ArtWorkType\<close> member, a
  \<open>str\<close>, or another object, which is described by what \<open>str(other)\<close> does on it
  (a string, or the exception that \<open>__str__\<close> raises).
\<close>

datatype other =
    OArtWorkType ArtWorkType
  | OStr string
  | OObject "pyexc + string"

fun py_str :: "other \<Rightarrow> pyexc + string" where
  "py_str (OArtWorkType t) = Inr (''ArtWorkType.'' @ (case t of illust \<Rightarrow> ''illust''
      | ugoira \<Rightarrow> ''ugoira'' | manga \<Rightarrow> ''manga'' | novel \<Rightarrow> ''novel''))"
| "py_str (OStr s) = Inr s"
| "py_str (OObject r) = r"

text \<open>
  \<^verbatim>\<open>
  def __eq__(self, other):
      if isinstance(other, ArtWorkType):
          return self.value == other.value
      else:
          try:
              return self.value == str(other)
          except (TypeError, ValueError):
              return False
  \<close>
\<close>

fun ArtWorkType_eq :: "ArtWorkType \<Rightarrow> other \<Rightarrow> error + bool" where
  "ArtWorkType_eq self (OArtWorkType other) = Inr (value_of self = value_of other)"
| "ArtWorkType_eq self other =
     (case py_str other of
        Inr s \<Rightarrow> Inr (value_of self = s)
      | Inl x \<Rightarrow>
          (if isinstance_exc x ''TypeError'' \<or> isinstance_exc x ''ValueError'' then Inr False
           else Inl (Raised x)))"

text \<open>Python derives \<open>!=\<close> from \<open>__eq__\<close> by negating its result.\<close>

definition ArtWorkType_ne :: "ArtWorkType \<Rightarrow> other \<Rightarrow> error + bool" where
  "ArtWorkType_ne self other =
     (case ArtWorkType_eq self other of Inl e \<Rightarrow> Inl e | Inr b \<Rightarrow> Inr (\<not> b))"

section \<open>\<open>model/artwork.py\<close>: records\<close>

text \<open>
  Modelled from the spec: the image-URL bundle \<open>ImageUrl\<close> of \<open>model/other.py\<close>
  ("multiple resolution variants", "optional-field fallback chaining"): the three
  resolution fields that the download paths read, each optional. A validated URL is a
  non-empty string, hence truthy; only \<open>None\<close> is falsy.
\<close>

record ImageUrl =
  original :: "string option"
  large :: "string option"
  medium :: "string option"

text \<open>Modelled from the spec: \<open>Tag\<close> of \<open>model/other.py\<close>, of which only \<open>name\<close> is read.\<close>

record Tag =
  name :: string

record MetaPage =
  image_urls :: ImageUrl

record MetaSinglePage =
  original_image_url :: "string option"

text \<open>
  The fields of \<open>ArtWork\<close> that its properties and download methods read; the remaining
  fields (title, caption, user, counters, ...) are carried by no modelled operation.
\<close>

record ArtWork =
  artwork_id :: int
  artwork_type :: ArtWorkType
  artwork_image_urls :: ImageUrl
  tags :: "Tag list"
  sanity_level :: int
  meta_single_page :: MetaSinglePage
  meta_pages :: "MetaPage list"

record Frame =
  frame_file :: string
  delay :: int

record UgoiraMetadata =
  zip_url :: ImageUrl
  frames :: "Frame list"

section \<open>Derived properties\<close>

definition is_nsfw :: "ArtWork \<Rightarrow> bool" where
  "is_nsfw self = (sanity_level self > 5)"

text \<open>
  \<open>str.title()\<close>: a character is upper-cased when the character before it is not
  cased (or there is none) and lower-cased otherwise. Tag names are compared with the
  ASCII string \<open>R18\<close>; the letters \<open>A\<close>--\<open>Z\<close> and \<open>a\<close>--\<open>z\<close> are the cased characters
  of the model, every other character is uncased and unchanged.
\<close>

definition is_upper :: "char \<Rightarrow> bool" where
  "is_upper c = (65 \<le> (of_char c :: nat) \<and> (of_char c :: nat) \<le> 90)"

definition is_lower :: "char \<Rightarrow> bool" where
  "is_lower c = (97 \<le> (of_char c :: nat) \<and> (of_char c :: nat) \<le> 122)"

definition is_cased :: "char \<Rightarrow> bool" where
  "is_cased c = (is_upper c \<or> is_lower c)"

definition to_upper :: "char \<Rightarrow> char" where
  "to_upper c = (if is_lower c then char_of ((of_char c :: nat) - 32) else c)"

definition to_lower :: "char \<Rightarrow> char" where
  "to_lower c = (if is_upper c then char_of ((of_char c :: nat) + 32) else c)"

fun title_from :: "bool \<Rightarrow> string \<Rightarrow> string" where
  "title_from previous_is_cased [] = []"
| "title_from previous_is_cased (c # cs) =
     (if previous_is_cased then to_lower c else to_upper c) # title_from (is_cased c) cs"

definition title :: "string \<Rightarrow> string" where
  "title s = title_from False s"

text \<open>\<open>s.replace('-', '')\<close>: every hyphen is removed.\<close>

definition replace_hyphen :: "string \<Rightarrow> string" where
  "replace_hyphen s = filter (\<lambda>c. c \<noteq> CHR ''-'') s"

text \<open>\<open>xs[0]\<close> raises \<open>IndexError\<close> on an empty list.\<close>

definition index0 :: "'a list \<Rightarrow> error + 'a" where
  "index0 xs = (case xs of [] \<Rightarrow> Inl IndexError | x # _ \<Rightarrow> Inr x)"

text \<open>
  \<^verbatim>\<open>
  def is_r18(self):
      if len(self.tags) >= 1:
          return self.tags[0].name.title().replace('-', '') == 'R18'
      return False
  \<close>
\<close>

definition is_r18 :: "ArtWork \<Rightarrow> error + bool" where
  "is_r18 self =
     (if length (tags self) \<ge> 1 then
        (case index0 (tags self) of
           Inl e \<Rightarrow> Inl e
         | Inr t \<Rightarrow> Inr (replace_hyphen (title (name t)) = ''R18''))
      else Inr False)"

section \<open>The client and the trace of what a call does\<close>

text \<open>
  The transport (\<open>PixivClient\<close>), the base section (\<open>_Section\<close>), the result classes and
  the \<open>zipfile\<close> module are not part of the modelled files. A call of one of them is an
  event of the trace, and what it returns is read from the record \<open>world\<close>. An
  operation returns its result (or the exception it raises) together with the events it
  caused, in order.
\<close>

datatype endpoint = V1_API string | V2_API string

type_synonym params = "(string \<times> pyval) list"

datatype event =
    Get endpoint params
  | SectionSearch params
  | SectionDetail int pyval
  | Download "string option" "string option"
  | ZipFileOpen bytes
  | ZipRead string

type_synonym 'a io = "(error + 'a) \<times> event list"

definition io_return :: "'a \<Rightarrow> 'a io" where
  "io_return x = (Inr x, [])"

definition io_raise :: "error \<Rightarrow> 'a io" where
  "io_raise e = (Inl e, [])"

definition io_lift :: "error + 'a \<Rightarrow> 'a io" where
  "io_lift r = (r, [])"

definition io_bind :: "'a io \<Rightarrow> ('a \<Rightarrow> 'b io) \<Rightarrow> 'b io" where
  "io_bind m f =
     (case m of
        (Inl e, tr) \<Rightarrow> (Inl e, tr)
      | (Inr x, tr) \<Rightarrow> (case f x of (r, tr') \<Rightarrow> (r, tr @ tr')))"

text \<open>
  An opened archive: for the name of each member, what opening and reading that member
  gives, its content or the error that \<open>zipfile\<close> raises on it (a bad checksum, an
  encrypted member). A name that is no member has no entry.
\<close>

type_synonym ZipFile = "string \<rightharpoonup> error + bytes"

datatype result_class =
    IllustSearchResult
  | IllustCommentResult
  | IllustRelatedResult
  | RecommendedResult
  | IllustNewResult

datatype parsed = Parsed result_class pyval

record IllustDetailResult =
  illust_of :: ArtWork

record UgoiraMetadataResult =
  metadata :: UgoiraMetadata

datatype date = Date int int int

record world =
  get_json :: "endpoint \<Rightarrow> params \<Rightarrow> error + pyval"
  download_bytes :: "string option \<Rightarrow> string option \<Rightarrow> error + bytes option"
  base_search :: "params \<Rightarrow> error + pyval"
  base_detail :: "int \<Rightarrow> pyval \<Rightarrow> error + pyval"
  parse_obj :: "result_class \<Rightarrow> pyval \<Rightarrow> error + parsed"
  parse_detail :: "pyval \<Rightarrow> error + IllustDetailResult"
  parse_ugoira :: "pyval \<Rightarrow> error + UgoiraMetadataResult"
  open_zip :: "bytes \<Rightarrow> error + ZipFile"
  strftime :: "date \<Rightarrow> string \<Rightarrow> string"

text \<open>\<open>(await self._client.get(url, params=ps)).json()\<close>\<close>

definition client_get :: "world \<Rightarrow> endpoint \<Rightarrow> params \<Rightarrow> pyval io" where
  "client_get w url ps = (get_json w url ps, [Get url ps])"

text \<open>\<open>await client.download(url, output=output)\<close>\<close>

definition client_download :: "world \<Rightarrow> string option \<Rightarrow> string option
    \<Rightarrow> bytes option io" where
  "client_download w url output = (download_bytes w url output, [Download url output])"

text \<open>\<open>await super().search(**kw)\<close> and \<open>await super().detail(id, filter=filter)\<close>\<close>

definition super_search :: "world \<Rightarrow> params \<Rightarrow> pyval io" where
  "super_search w ps = (base_search w ps, [SectionSearch ps])"

definition super_detail :: "world \<Rightarrow> int \<Rightarrow> pyval \<Rightarrow> pyval io" where
  "super_detail w i flt = (base_detail w i flt, [SectionDetail i flt])"

text \<open>\<open>ZipFile(BytesIO(data))\<close> and \<open>with zip_file.open(name) as f: f.read()\<close>\<close>

definition ZipFile_new :: "world \<Rightarrow> bytes \<Rightarrow> ZipFile io" where
  "ZipFile_new w data = (open_zip w data, [ZipFileOpen data])"

definition zip_read :: "ZipFile \<Rightarrow> string \<Rightarrow> bytes io" where
  "zip_read z n = ((case z n of None \<Rightarrow> Inl (KeyError n) | Some r \<Rightarrow> r), [ZipRead n])"

text \<open>
  \<open>a or b\<close> on optional URLs, \<open>str(x)\<close> on an optional URL (\<open>str(None)\<close> is the
  string \<open>None\<close>), and an optional integer as a parameter value.
\<close>

definition py_or :: "'a option \<Rightarrow> 'a option \<Rightarrow> 'a option" where
  "py_or a b = (case a of Some x \<Rightarrow> Some x | None \<Rightarrow> b)"

definition str_opt :: "string option \<Rightarrow> string" where
  "str_opt x = (case x of None \<Rightarrow> ''None'' | Some u \<Rightarrow> u)"

definition opt_int :: "int option \<Rightarrow> pyval" where
  "opt_int x = (case x of None \<Rightarrow> PyNone | Some i \<Rightarrow> PyInt i)"

definition opt_date :: "world \<Rightarrow> date option \<Rightarrow> pyval" where
  "opt_date w d = (case d of None \<Rightarrow> PyNone | Some x \<Rightarrow> PyStr (strftime w x
      ''%Y-%m-%d''))"

section \<open>\<open>client/_section/_illust.py\<close>: the class \<open>ILLUST\<close>\<close>

definition ILLUST_follow :: "world \<Rightarrow> int option \<Rightarrow> parsed io" where
  "ILLUST_follow w offset =
     io_bind (client_get w (V2_API ''illust/follow'')
                [(''restrict'', PyStr ''public''), (''offset'', opt_int offset)])
       (\<lambda>data. io_lift (parse_obj w IllustSearchResult data))"

definition ILLUST_search ::
  "world \<Rightarrow> string \<Rightarrow> pyval \<Rightarrow> pyval \<Rightarrow> pyval
      \<Rightarrow> pyval \<Rightarrow> int option \<Rightarrow> int option
     \<Rightarrow> int option \<Rightarrow> date option \<Rightarrow> date option \<Rightarrow> parsed io" where
  "ILLUST_search w word sort' target duration flt offset min_bookmarks max_bookmarks
       start_date end_date =
     (let start_date' = opt_date w start_date;
          end_date' = opt_date w end_date
      in io_bind (super_search w
                    [(''word'', PyStr word), (''sort'', sort'), (''duration'', duration),
                     (''filter'', flt), (''offset'', opt_int offset),
                     (''bookmark_num_min'', opt_int min_bookmarks),
                     (''bookmark_num_max'', opt_int max_bookmarks),
                     (''target'', target), (''start_date'', start_date'),
                     (''end_date'', end_date')])
           (\<lambda>data. io_lift (parse_obj w IllustSearchResult data)))"

definition ILLUST_detail :: "world \<Rightarrow> int \<Rightarrow> pyval \<Rightarrow>
    IllustDetailResult io" where
  "ILLUST_detail w i flt =
     io_bind (super_detail w i flt) (\<lambda>data. io_lift (parse_detail w data))"

definition ILLUST_comments :: "world \<Rightarrow> int \<Rightarrow> int option \<Rightarrow> parsed io" where
  "ILLUST_comments w i offset =
     io_bind (client_get w (V1_API ''illust/comments'')
                [(''illust_id'', PyInt i), (''offset'', opt_int offset)])
       (\<lambda>data. io_lift (parse_obj w IllustCommentResult data))"

text \<open>
  \<^verbatim>\<open>"seed_illust_ids": ([seed_ids] if seed_ids is not list else seed_ids)\<close>

  \<open>seed_ids is not list\<close> is an identity test against the class \<open>list\<close>.
\<close>

definition seed_illust_ids :: "pyval \<Rightarrow> pyval" where
  "seed_illust_ids seed_ids = (if seed_ids \<noteq> PyClassList then PyList [seed_ids] else seed_ids)"

definition ILLUST_related :: "world \<Rightarrow> int \<Rightarrow> pyval \<Rightarrow> int option
    \<Rightarrow> pyval \<Rightarrow> parsed io" where
  "ILLUST_related w i flt offset seed_ids =
     io_bind (client_get w (V2_API ''illust/related'')
                [(''illust_id'', PyInt i), (''offset'', opt_int offset), (''filter'', flt),
                 (''seed_illust_ids'', seed_illust_ids seed_ids)])
       (\<lambda>data. io_lift (parse_obj w IllustRelatedResult data))"

definition ILLUST_recommended ::
  "world \<Rightarrow> bool \<Rightarrow> pyval \<Rightarrow> bool \<Rightarrow> pyval
      \<Rightarrow> int option \<Rightarrow> pyval \<Rightarrow> int option \<Rightarrow> int
      option
     \<Rightarrow> pyval \<Rightarrow> pyval \<Rightarrow> pyval \<Rightarrow> parsed io" where
  "ILLUST_recommended w with_auth type include_ranking_label include_ranking_illusts offset
       flt max_bookmark_id_for_recommend min_bookmark_id_for_recent_illust
       bookmark_illust_ids include_privacy_policy viewed =
     io_bind (client_get w
                (V1_API (if with_auth then ''illust/recommended''
                         else ''illust/recommended-nologin''))
                [(''content_type'', type),
                 (''include_ranking_label'', PyBool include_ranking_label),
                 (''include_ranking_illusts'', include_ranking_illusts),
                 (''offset'', opt_int offset),
                 (''filter'', flt),
                 (''viewed'', viewed),
                 (''max_bookmark_id_for_recommend'', opt_int max_bookmark_id_for_recommend),
                 (''min_bookmark_id_for_recent_illust'',
                    opt_int min_bookmark_id_for_recent_illust),
                 (''bookmark_illust_ids'', bookmark_illust_ids),
                 (''include_privacy_policy'', include_privacy_policy)])
       (\<lambda>data. io_lift (parse_obj w RecommendedResult data))"

definition ILLUST_new_illusts :: "world \<Rightarrow> string \<Rightarrow> pyval \<Rightarrow> int
    option \<Rightarrow> parsed io" where
  "ILLUST_new_illusts w type flt max_illust_id =
     io_bind (client_get w (V1_API ''illust/new'')
                [(''content_type'', PyStr type), (''max_illust_id'', opt_int max_illust_id),
                 (''filter'', flt)])
       (\<lambda>data. io_lift (parse_obj w IllustNewResult data))"

definition ILLUST_ugoira_metadata :: "world \<Rightarrow> int \<Rightarrow> UgoiraMetadataResult io" where
  "ILLUST_ugoira_metadata w i =
     io_bind (client_get w (V1_API ''ugoira/metadata'') [(''illust_id'', PyInt i)])
       (\<lambda>data. io_lift (parse_ugoira w data))"

text \<open>The two messages of \<open>ArtWorkTypeError\<close>; \<open>CHR 0x22\<close> is the double quote.\<close>

definition msg_use_download_ugoira :: string where
  "msg_use_download_ugoira =
     ''If you want to download a moving image, please use this method: ''
       @ [CHR 0x22] @ ''download_ugoira'' @ [CHR 0x22]"

definition msg_use_download :: string where
  "msg_use_download =
     ''If you want to download a moving image, please use this method: ''
       @ [CHR 0x22] @ ''download'' @ [CHR 0x22]"

text \<open>
  The loop of the multi-page branch of \<open>ILLUST.download\<close>:
  \<^verbatim>\<open>
  for meta_page in artwork.meta_pages:
      result.append(await self._client.download(
          str(meta_page.image_urls.original or meta_page.image_urls.large),
          output=output))
  \<close>
\<close>

fun ILLUST_download_pages ::
  "world \<Rightarrow> MetaPage list \<Rightarrow> string option \<Rightarrow> bytes option list
      \<Rightarrow> bytes option list io" where
  "ILLUST_download_pages w [] output result = io_return result"
| "ILLUST_download_pages w (meta_page # rest) output result =
     io_bind (client_download w
                (Some (str_opt (py_or (original (image_urls meta_page))
                                      (large (image_urls meta_page)))))
                output)
       (\<lambda>d. ILLUST_download_pages w rest output (result @ [d]))"

definition ILLUST_download ::
  "world \<Rightarrow> int \<Rightarrow> bool \<Rightarrow> pyval \<Rightarrow> string option
      \<Rightarrow> bytes option list io" where
  "ILLUST_download w i full flt output =
     io_bind (ILLUST_detail w i flt) (\<lambda>res.
       let artwork = illust_of res in
       io_bind (io_lift (ArtWorkType_eq (artwork_type artwork) (OArtWorkType ugoira)))
         (\<lambda>is_ugoira.
            if is_ugoira then io_raise (ArtWorkTypeError msg_use_download_ugoira)
            else if \<not> full \<or> meta_pages artwork = [] then
              io_bind (client_download w
                         (Some (str_opt
                            (py_or (py_or (original_image_url (meta_single_page artwork))
                                          (original (artwork_image_urls artwork)))
                                   (large (artwork_image_urls artwork)))))
                         output)
                (\<lambda>d. io_return [d])
            else ILLUST_download_pages w (meta_pages artwork) output []))"

text \<open>
  What \<open>download_ugoira\<close> returns when there is data: the archive, the frames as a
  list, the frames as an iterator, or the dictionary with both.
\<close>

datatype ugoira_result =
    RZip ZipFile
  | RFrames "bytes list"
  | RIter "bytes list"
  | RDict ZipFile "bytes list"

text \<open>
  \<^verbatim>\<open>
  frames = []
  for frame_info in metadata.frames:
      with zip_file.open(frame_info.file) as f:
          frames.append(f.read())
  \<close>
\<close>

fun read_frames :: "ZipFile \<Rightarrow> Frame list \<Rightarrow> bytes list \<Rightarrow> bytes list io" where
  "read_frames zip_file [] frames_acc = io_return frames_acc"
| "read_frames zip_file (frame_info # rest) frames_acc =
     io_bind (zip_read zip_file (frame_file frame_info))
       (\<lambda>b. read_frames zip_file rest (frames_acc @ [b]))"

definition ILLUST_download_ugoira :: "world \<Rightarrow> int \<Rightarrow> string \<Rightarrow>
    ugoira_result option io" where
  "ILLUST_download_ugoira w i type =
     io_bind (ILLUST_ugoira_metadata w i) (\<lambda>res.
       let md = metadata res; zu = zip_url md in
       io_bind (client_download w (py_or (py_or (original zu) (large zu)) (medium zu)) None)
         (\<lambda>data.
            case data of
              None \<Rightarrow> io_return None
            | Some d \<Rightarrow>
                io_bind (ZipFile_new w d) (\<lambda>zip_file.
                  if type = ''zip'' then io_return (Some (RZip zip_file))
                  else
                    io_bind (read_frames zip_file (frames md) []) (\<lambda>frs.
                      if type = ''jpg'' then io_return (Some (RFrames frs))
                      else if type = ''iter'' then io_return (Some (RIter frs))
                      else io_return (Some (RDict zip_file frs))))))"

section \<open>\<open>model/artwork.py\<close>: the download methods of \<open>ArtWork\<close>\<close>

text \<open>
  \<^verbatim>\<open>
  if client is None:
      client = PixivClient.get_client()
  \<close>
  The second argument is the client that \<open>PixivClient.get_client()\<close> returns.
\<close>

definition resolve_client :: "world option \<Rightarrow> world \<Rightarrow> world" where
  "resolve_client client the_client = (case client of None \<Rightarrow> the_client | Some c \<Rightarrow> c)"

fun ArtWork_download_pages ::
  "world \<Rightarrow> MetaPage list \<Rightarrow> string option \<Rightarrow> bytes option list
      \<Rightarrow> bytes option list io" where
  "ArtWork_download_pages w [] output result = io_return result"
| "ArtWork_download_pages w (meta_page # rest) output result =
     io_bind (client_download w
                (Some (str_opt (py_or (original (image_urls meta_page))
                                      (large (image_urls meta_page)))))
                output)
       (\<lambda>d. ArtWork_download_pages w rest output (result @ [d]))"

text \<open>
  In the first branch the source calls \<open>client.download(str(...))\<close> with one argument;
  in the loop it calls \<open>client.download(str(...), output=output)\<close>.
\<close>

definition ArtWork_download ::
  "ArtWork \<Rightarrow> bool \<Rightarrow> string option \<Rightarrow> world option \<Rightarrow>
      world \<Rightarrow> bytes option list io" where
  "ArtWork_download self full output client the_client =
     (let w = resolve_client client the_client in
      if \<not> full \<or> meta_pages self = [] then
        io_bind (client_download w
                   (Some (str_opt
                      (py_or (py_or (original_image_url (meta_single_page self))
                                    (original (artwork_image_urls self)))
                             (large (artwork_image_urls self)))))
                   None)
          (\<lambda>d. io_return [d])
      else ArtWork_download_pages w (meta_pages self) output [])"

definition ArtWork_ugoira_metadata ::
  "ArtWork \<Rightarrow> world option \<Rightarrow> world \<Rightarrow> UgoiraMetadata option io" where
  "ArtWork_ugoira_metadata self client the_client =
     io_bind (io_lift (ArtWorkType_ne (artwork_type self) (OArtWorkType ugoira)))
       (\<lambda>not_ugoira.
          if not_ugoira then io_return None
          else
            (let w = resolve_client client the_client in
             io_bind (ILLUST_ugoira_metadata w (artwork_id self))
               (\<lambda>res. io_return (Some (metadata res)))))"

text \<open>
  \<open>metadata.zip_url\<close> on \<open>None\<close> would raise \<open>AttributeError\<close>; the type test at the
  head of the method keeps \<open>ugoira_metadata\<close> from returning \<open>None\<close> here.
\<close>

definition ArtWork_download_ugoira ::
  "ArtWork \<Rightarrow> world option \<Rightarrow> world \<Rightarrow> string \<Rightarrow>
      ugoira_result option io" where
  "ArtWork_download_ugoira self client the_client type =
     io_bind (io_lift (ArtWorkType_ne (artwork_type self) (OArtWorkType ugoira)))
       (\<lambda>not_ugoira.
          if not_ugoira then io_raise (ArtWorkTypeError msg_use_download)
          else
            (let w = resolve_client client the_client in
             io_bind (ArtWork_ugoira_metadata self (Some w) the_client) (\<lambda>md_opt.
               case md_opt of
                 None \<Rightarrow> io_raise (OtherError ''AttributeError'')
               | Some md \<Rightarrow>
                   (let zu = zip_url md in
                    io_bind (client_download w
                               (py_or (py_or (original zu) (large zu)) (medium zu)) None)
                      (\<lambda>data.
                         case data of
                           None \<Rightarrow> io_return None
                         | Some d \<Rightarrow>
                             io_bind (ZipFile_new w d) (\<lambda>zip_file.
                               if type = ''zip'' then io_return (Some (RZip zip_file))
                               else
                                 io_bind (read_frames zip_file (frames md) []) (\<lambda>frs.
                                   if type = ''jpg'' then io_return (Some (RFrames frs))
                                   else if type = ''iter'' then io_return (Some (RIter frs))
                                   else io_return (Some (RDict zip_file frs)))))))))"

section \<open>Observations on a trace\<close>

text \<open>
  A call of the API layer is a \<open>_client.get\<close> or a call of the base section's
  \<open>search\<close> or \<open>detail\<close>; a download is a call of \<open>client.download\<close>. Opening the
  archive and reading a member are local operations, not requests.
\<close>

fun is_api_call :: "event \<Rightarrow> bool" where
  "is_api_call (Get url ps) = True"
| "is_api_call (SectionSearch ps) = True"
| "is_api_call (SectionDetail i flt) = True"
| "is_api_call e = False"

fun is_download :: "event \<Rightarrow> bool" where
  "is_download (Download url output) = True"
| "is_download e = False"

fun is_zip_access :: "event \<Rightarrow> bool" where
  "is_zip_access (ZipFileOpen d) = True"
| "is_zip_access (ZipRead n) = True"
| "is_zip_access e = False"

definition api_calls :: "event list \<Rightarrow> event list" where
  "api_calls tr = filter is_api_call tr"

definition downloads :: "event list \<Rightarrow> event list" where
  "downloads tr = filter is_download tr"

definition requests :: "event list \<Rightarrow> event list" where
  "requests tr = filter (\<lambda>e. is_api_call e \<or> is_download e) tr"

text \<open>The claimed selection rule, in the words of the specification:
  the original field if it is present, otherwise the large field if present, otherwise
  the medium field.\<close>

definition fallback_chain_spec :: "ImageUrl \<Rightarrow> string option" where
  "fallback_chain_spec b =
     (if original b \<noteq> None then original b
      else if large b \<noteq> None then large b
      else medium b)"

text \<open>The arguments (URL, output) of the downloads of a trace, in order.\<close>

fun download_args :: "event list \<Rightarrow> (string option \<times> string option) list" where
  "download_args [] = []"
| "download_args (Download url output # tr) = (url, output) # download_args tr"
| "download_args (e # tr) = download_args tr"

text \<open>
  The selection that the static-image paths make, written as a chain: the original of
  the single page, then the bundle's original, then its large field; the text \<open>None\<close>
  when none of them is present. For a page of \<open>meta_pages\<close> the first link is absent.
\<close>

definition static_chain_amended :: "string option \<Rightarrow> ImageUrl \<Rightarrow> string" where
  "static_chain_amended single b =
     (case single of Some u \<Rightarrow> u | None \<Rightarrow>
        (case original b of Some u \<Rightarrow> u | None \<Rightarrow>
           (case large b of Some u \<Rightarrow> u | None \<Rightarrow> ''None'')))"

text \<open>The argument of the one download of \<open>download_ugoira\<close>.\<close>

definition zip_choice :: "UgoiraMetadata \<Rightarrow> string option" where
  "zip_choice md =
     py_or (py_or (original (zip_url md)) (large (zip_url md))) (medium (zip_url md))"

text \<open>
  A name is readable in an archive when it is a member whose content can be read;
  \<open>frame_payloads\<close> is the content of the member named by each manifest entry, in the
  manifest's order.
\<close>

definition readable :: "ZipFile \<Rightarrow> string \<Rightarrow> bool" where
  "readable z n = (case z n of Some (Inr b) \<Rightarrow> True | _ \<Rightarrow> False)"

definition member_bytes :: "ZipFile \<Rightarrow> string \<Rightarrow> bytes" where
  "member_bytes z n = (case z n of Some (Inr b) \<Rightarrow> b | _ \<Rightarrow> [])"

definition frame_payloads :: "ZipFile \<Rightarrow> Frame list \<Rightarrow> bytes list" where
  "frame_payloads z fs = map (\<lambda>f. member_bytes z (frame_file f)) fs"

section \<open>Concrete inputs\<close>

definition mk_artwork :: "ArtWorkType \<Rightarrow> Tag list \<Rightarrow> string option
    \<Rightarrow> ImageUrl \<Rightarrow> MetaPage list \<Rightarrow> ArtWork" where
  "mk_artwork t ts single urls pages =
     \<lparr>artwork_id = 7, artwork_type = t, artwork_image_urls = urls, tags = ts,
      sanity_level = 2, meta_single_page = \<lparr>original_image_url = single\<rparr>,
      meta_pages = pages\<rparr>"

definition mk_urls :: "string option \<Rightarrow> string option \<Rightarrow> string option
    \<Rightarrow> ImageUrl" where
  "mk_urls a b c = \<lparr>original = a, large = b, medium = c\<rparr>"

text \<open>
  A client whose API layer answers every call, whose validation yields the given artwork
  and manifest, whose transport returns what \<open>dl\<close> says for a URL, and whose archives
  all open as \<open>z\<close>.
\<close>

definition mk_world ::
  "ArtWork \<Rightarrow> UgoiraMetadata \<Rightarrow> (string option \<Rightarrow> bytes option)
      \<Rightarrow> ZipFile \<Rightarrow> world" where
  "mk_world art md dl z =
     \<lparr>get_json = (\<lambda>url ps. Inr PyNone),
      download_bytes = (\<lambda>url output. Inr (dl url)),
      base_search = (\<lambda>ps. Inr PyNone),
      base_detail = (\<lambda>i flt. Inr PyNone),
      parse_obj = (\<lambda>c d. Inr (Parsed c d)),
      parse_detail = (\<lambda>d. Inr \<lparr>illust_of = art\<rparr>),
      parse_ugoira = (\<lambda>d. Inr \<lparr>metadata = md\<rparr>),
      open_zip = (\<lambda>d. Inr z),
      strftime = (\<lambda>d fmt. ''2023-01-05'')\<rparr>"

definition example_zip :: ZipFile where
  "example_zip = [''000000.jpg'' \<mapsto> Inr [1, 2], ''000001.jpg'' \<mapsto> Inr [3]]"

definition damaged_zip :: ZipFile where
  "damaged_zip = [''000000.jpg'' \<mapsto> Inr [1, 2], ''000001.jpg'' \<mapsto> Inl BadZipFile]"

definition example_metadata :: UgoiraMetadata where
  "example_metadata =
     \<lparr>zip_url = mk_urls None None (Some ''https://i.example/u.zip''),
      frames = [\<lparr>frame_file = ''000001.jpg'', delay = 40\<rparr>,
                \<lparr>frame_file = ''000000.jpg'', delay = 60\<rparr>]\<rparr>"

definition single_art :: ArtWork where
  "single_art =
     mk_artwork illust [] (Some ''https://i.example/orig.jpg'')
       (mk_urls None (Some ''https://i.example/large.jpg'') (Some ''https://i.example/medium.jpg''))
       []"

definition ugoira_art :: ArtWork where
  "ugoira_art =
     mk_artwork ugoira [] (Some ''https://i.example/cover.jpg'')
       (mk_urls None (Some ''https://i.example/large.jpg'') (Some ''https://i.example/medium.jpg''))
       []"

definition manga_art :: ArtWork where
  "manga_art =
     mk_artwork manga [] None
       (mk_urls None (Some ''https://i.example/large.jpg'') (Some ''https://i.example/medium.jpg''))
       [\<lparr>image_urls = mk_urls (Some ''https://i.example/p0.jpg'')
                        (Some ''https://i.example/p0_large.jpg'') None\<rparr>,
        \<lparr>image_urls = mk_urls None (Some ''https://i.example/p1_large.jpg'')
                        (Some ''https://i.example/p1_medium.jpg'')\<rparr>]"


definition tagged_art :: "Tag list \<Rightarrow> ArtWork" where
  "tagged_art ts = mk_artwork illust ts None (mk_urls None None None) []"

definition some_data :: "string option \<Rightarrow> bytes option" where
  "some_data url = Some [1, 2, 3]"

definition no_data :: "string option \<Rightarrow> bytes option" where
  "no_data url = None"

definition example_world :: "ArtWork \<Rightarrow> world" where
  "example_world art = mk_world art example_metadata some_data example_zip"

text \<open>Exceptions with the class hierarchy of the standard library.\<close>

definition type_error :: pyexc where
  "type_error = PyExc ''TypeError'' [''Exception'', ''BaseException'', ''object'']"

definition unicode_decode_error :: pyexc where
  "unicode_decode_error =
     PyExc ''UnicodeDecodeError''
       [''UnicodeError'', ''ValueError'', ''Exception'', ''BaseException'', ''object'']"

definition runtime_error :: pyexc where
  "runtime_error = PyExc ''RuntimeError'' [''Exception'', ''BaseException'', ''object'']"

definition mismatch_metadata :: UgoiraMetadata where
  "mismatch_metadata =
     \<lparr>zip_url = mk_urls None None (Some ''https://i.example/u.zip''),
      frames = [\<lparr>frame_file = ''000000.jpg'', delay = 40\<rparr>,
                \<lparr>frame_file = ''000002.jpg'', delay = 60\<rparr>]\<rparr>"

definition mismatch_world :: world where
  "mismatch_world = mk_world ugoira_art mismatch_metadata some_data example_zip"

definition flaky_world :: "ArtWork \<Rightarrow> world" where
  "flaky_world art =
     (example_world art)\<lparr>download_bytes :=
        (\<lambda>url output. if url = Some ''https://i.example/p0.jpg''
                       then Inl (OtherError ''timeout'') else Inr (Some [1, 2, 3]))\<rparr>"

definition offline_world :: world where
  "offline_world =
     (example_world single_art)\<lparr>base_detail := (\<lambda>i flt. Inl (OtherError ''offline'')),
        get_json := (\<lambda>url ps. Inl (OtherError ''offline''))\<rparr>"

definition damaged_world :: world where
  "damaged_world = mk_world ugoira_art example_metadata some_data damaged_zip"

definition ugoira_world :: world where
  "ugoira_world = example_world ugoira_art"

definition no_data_world :: world where
  "no_data_world = mk_world ugoira_art example_metadata no_data example_zip"

section \<open>Auxiliary facts\<close>


lemma io_bind_Inl: "io_bind (Inl e, tr) f = (Inl e, tr)"
  by (simp add: io_bind_def)

lemma io_bind_Inr: "io_bind (Inr x, tr) f = (fst (f x), tr @ snd (f x))"
  by (simp add: io_bind_def split: prod.splits)

lemma io_bind_return: "io_bind (io_return x) f = f x"
  by (simp add: io_return_def io_bind_Inr)

lemma io_bind_lift_Inr: "io_bind (io_lift (Inr x)) f = f x"
  by (simp add: io_lift_def io_bind_Inr)

lemma value_of_inj: "(value_of t = value_of u) = (t = u)"
  by (cases t; cases u) simp_all

lemma ugoira_eq: "ArtWorkType_eq t (OArtWorkType ugoira) = Inr (t = ugoira)"
  using value_of_inj [of t ugoira] by simp

lemma ugoira_ne: "ArtWorkType_ne t (OArtWorkType ugoira) = Inr (t \<noteq> ugoira)"
  unfolding ArtWorkType_ne_def ugoira_eq by simp

lemma readable_iff: "readable z n \<longleftrightarrow> (\<exists>b. z n = Some (Inr b))"
  by (auto simp add: readable_def split: option.splits sum.splits)

lemma member_bytes_readable: "z n = Some (Inr b) \<Longrightarrow> member_bytes z n = b"
  by (simp add: member_bytes_def)

lemma read_frames_present:
  "\<forall>f \<in> set fs. readable z (frame_file f) \<Longrightarrow>
   read_frames z fs acc =
     (Inr (acc @ frame_payloads z fs), map (\<lambda>f. ZipRead (frame_file f)) fs)"
proof (induction fs arbitrary: acc)
  case Nil
  then show ?case by (simp add: io_return_def frame_payloads_def)
next
  case (Cons f fs)
  from Cons.prems obtain b where b: "z (frame_file f) = Some (Inr b)"
    by (auto simp add: readable_iff)
  from Cons.prems have rest: "\<forall>g \<in> set fs. readable z (frame_file g)" by simp
  have "read_frames z fs (acc @ [b]) =
      (Inr ((acc @ [b]) @ frame_payloads z fs), map (\<lambda>f. ZipRead (frame_file f)) fs)"
    by (rule Cons.IH [OF rest])
  then show ?case
    by (simp add: zip_read_def b io_bind_Inr frame_payloads_def member_bytes_def)
qed

lemma read_frames_first_failure:
  assumes "\<forall>f \<in> set pre. readable z (frame_file f)"
    and "fst (zip_read z (frame_file g)) = Inl e"
  shows "read_frames z (pre @ g # post) acc =
     (Inl e, map (\<lambda>f. ZipRead (frame_file f)) (pre @ [g]))"
  using assms(1)
proof (induction pre arbitrary: acc)
  case Nil
  from assms(2) have "zip_read z (frame_file g) = (Inl e, [ZipRead (frame_file g)])"
    by (simp add: zip_read_def)
  then show ?case by (simp add: io_bind_Inl)
next
  case (Cons f pre)
  from Cons.prems obtain b where b: "z (frame_file f) = Some (Inr b)"
    by (auto simp add: readable_iff)
  from Cons.prems have rest: "\<forall>h \<in> set pre. readable z (frame_file h)" by simp
  show ?case
    by (simp add: zip_read_def b io_bind_Inr Cons.IH [OF rest])
qed

lemma ILLUST_ugoira_metadata_ok:
  "get_json w (V1_API ''ugoira/metadata'') [(''illust_id'', PyInt i)] = Inr js \<Longrightarrow>
   parse_ugoira w js = Inr res \<Longrightarrow>
   ILLUST_ugoira_metadata w i =
     (Inr res, [Get (V1_API ''ugoira/metadata'') [(''illust_id'', PyInt i)]])"
  by (simp add: ILLUST_ugoira_metadata_def client_get_def io_bind_Inr io_lift_def)

lemma ILLUST_download_ugoira_unfold:
  assumes "get_json w (V1_API ''ugoira/metadata'') [(''illust_id'', PyInt i)] = Inr js"
    and "parse_ugoira w js = Inr res"
  shows "ILLUST_download_ugoira w i ty =
     io_bind (Inr res, [Get (V1_API ''ugoira/metadata'') [(''illust_id'', PyInt i)]]) (\<lambda>res.
       let md = metadata res; zu = zip_url md in
       io_bind (client_download w (py_or (py_or (original zu) (large zu)) (medium zu)) None)
         (\<lambda>data.
            case data of
              None \<Rightarrow> io_return None
            | Some d \<Rightarrow>
                io_bind (ZipFile_new w d) (\<lambda>zip_file.
                  if ty = ''zip'' then io_return (Some (RZip zip_file))
                  else
                    io_bind (read_frames zip_file (frames md) []) (\<lambda>frs.
                      if ty = ''jpg'' then io_return (Some (RFrames frs))
                      else if ty = ''iter'' then io_return (Some (RIter frs))
                      else io_return (Some (RDict zip_file frs))))))"
  unfolding ILLUST_download_ugoira_def ILLUST_ugoira_metadata_ok [OF assms] ..

lemma ArtWork_ugoira_metadata_ok:
  "artwork_type self = ugoira \<Longrightarrow>
   get_json w (V1_API ''ugoira/metadata'') [(''illust_id'', PyInt (artwork_id self))] = Inr js \<Longrightarrow>
   parse_ugoira w js = Inr res \<Longrightarrow>
   ArtWork_ugoira_metadata self (Some w) w' =
     (Inr (Some (metadata res)),
      [Get (V1_API ''ugoira/metadata'') [(''illust_id'', PyInt (artwork_id self))]])"
  by (simp add: ArtWork_ugoira_metadata_def ugoira_ne io_bind_lift_Inr resolve_client_def
      ILLUST_ugoira_metadata_ok io_bind_Inr io_return_def)

lemma ILLUST_download_ugoira_None:
  assumes "get_json w (V1_API ''ugoira/metadata'') [(''illust_id'', PyInt i)] = Inr js"
    and "parse_ugoira w js = Inr res"
    and "download_bytes w (zip_choice (metadata res)) None = Inr None"
  shows "ILLUST_download_ugoira w i ty =
     (Inr None, [Get (V1_API ''ugoira/metadata'') [(''illust_id'', PyInt i)],
                 Download (zip_choice (metadata res)) None])"
  using assms(3)
  by (simp add: ILLUST_download_ugoira_unfold [OF assms(1,2)] io_bind_Inr Let_def
      client_download_def zip_choice_def io_return_def)

lemma ArtWork_download_ugoira_None:
  assumes "artwork_type self = ugoira"
    and "get_json w (V1_API ''ugoira/metadata'') [(''illust_id'', PyInt (artwork_id self))] = Inr js"
    and "parse_ugoira w js = Inr res"
    and "download_bytes w (zip_choice (metadata res)) None = Inr None"
  shows "ArtWork_download_ugoira self (Some w) w' ty =
     (Inr None, [Get (V1_API ''ugoira/metadata'') [(''illust_id'', PyInt (artwork_id self))],
                 Download (zip_choice (metadata res)) None])"
  using assms(4)
  by (simp add: ArtWork_download_ugoira_def ugoira_ne assms(1) io_bind_lift_Inr
      resolve_client_def ArtWork_ugoira_metadata_ok [OF assms(1,2,3)] io_bind_Inr Let_def
      client_download_def zip_choice_def io_return_def)

lemma ILLUST_download_ugoira_zip:
  assumes "get_json w (V1_API ''ugoira/metadata'') [(''illust_id'', PyInt i)] = Inr js"
    and "parse_ugoira w js = Inr res"
    and "download_bytes w (zip_choice (metadata res)) None = Inr (Some d)"
    and "open_zip w d = Inr z"
  shows "ILLUST_download_ugoira w i ''zip'' =
     (Inr (Some (RZip z)),
      [Get (V1_API ''ugoira/metadata'') [(''illust_id'', PyInt i)],
       Download (zip_choice (metadata res)) None, ZipFileOpen d])"
  using assms(3,4)
  by (simp add: ILLUST_download_ugoira_unfold [OF assms(1,2)] io_bind_Inr Let_def
      client_download_def zip_choice_def io_return_def ZipFile_new_def)

lemma ILLUST_download_ugoira_frames:
  assumes "get_json w (V1_API ''ugoira/metadata'') [(''illust_id'', PyInt i)] = Inr js"
    and "parse_ugoira w js = Inr res"
    and "download_bytes w (zip_choice (metadata res)) None = Inr (Some d)"
    and "open_zip w d = Inr z"
    and "\<forall>f \<in> set (frames (metadata res)). readable z (frame_file f)"
    and "ty \<noteq> ''zip''"
  shows "ILLUST_download_ugoira w i ty =
     (Inr (Some (if ty = ''jpg'' then RFrames (frame_payloads z (frames (metadata res)))
                 else if ty = ''iter'' then RIter (frame_payloads z (frames (metadata res)))
                 else RDict z (frame_payloads z (frames (metadata res))))),
      [Get (V1_API ''ugoira/metadata'') [(''illust_id'', PyInt i)],
       Download (zip_choice (metadata res)) None, ZipFileOpen d]
      @ map (\<lambda>f. ZipRead (frame_file f)) (frames (metadata res)))"
  using assms(3,4,6)
  by (simp add: ILLUST_download_ugoira_unfold [OF assms(1,2)] io_bind_Inr Let_def
      client_download_def zip_choice_def io_return_def ZipFile_new_def
      read_frames_present [OF assms(5)])

lemma ILLUST_download_ugoira_first_failure:
  assumes "get_json w (V1_API ''ugoira/metadata'') [(''illust_id'', PyInt i)] = Inr js"
    and "parse_ugoira w js = Inr res"
    and "download_bytes w (zip_choice (metadata res)) None = Inr (Some d)"
    and "open_zip w d = Inr z"
    and "frames (metadata res) = pre @ g # post"
    and "\<forall>f \<in> set pre. readable z (frame_file f)"
    and "fst (zip_read z (frame_file g)) = Inl e"
    and "ty \<noteq> ''zip''"
  shows "ILLUST_download_ugoira w i ty =
     (Inl e,
      [Get (V1_API ''ugoira/metadata'') [(''illust_id'', PyInt i)],
       Download (zip_choice (metadata res)) None, ZipFileOpen d]
      @ map (\<lambda>f. ZipRead (frame_file f)) (pre @ [g]))"
  using assms(3,4,8)
  by (simp add: ILLUST_download_ugoira_unfold [OF assms(1,2)] io_bind_Inr io_bind_Inl Let_def
      client_download_def zip_choice_def io_return_def ZipFile_new_def assms(5)
      read_frames_first_failure [OF assms(6,7)])

lemma ArtWork_download_ugoira_eq_ILLUST:
  assumes "artwork_type self = ugoira"
    and "get_json w (V1_API ''ugoira/metadata'') [(''illust_id'', PyInt (artwork_id self))] = Inr js"
    and "parse_ugoira w js = Inr res"
  shows "ArtWork_download_ugoira self (Some w) w' ty = ILLUST_download_ugoira w (artwork_id self) ty"
  by (simp add: ArtWork_download_ugoira_def ugoira_ne assms(1) io_bind_lift_Inr
      resolve_client_def ArtWork_ugoira_metadata_ok [OF assms(1,2,3)]
      ILLUST_download_ugoira_unfold [OF assms(2,3)] io_bind_Inr Let_def)

lemma snd_io_bind:
  "snd (io_bind m f) = snd m @ (case fst m of Inl e \<Rightarrow> [] | Inr x \<Rightarrow> snd (f x))"
  by (cases m) (auto simp: io_bind_def split: prod.splits sum.splits)

lemma fst_io_bind:
  "fst (io_bind m f) = (case fst m of Inl e \<Rightarrow> Inl e | Inr x \<Rightarrow> fst (f x))"
  by (cases m) (auto simp: io_bind_def split: prod.splits sum.splits)

lemma download_args_append: "download_args (xs @ ys) = download_args xs @ download_args ys"
  by (induction xs rule: download_args.induct) simp_all

lemma single_chain:
  "str_opt (py_or (py_or s (original b)) (large b)) = static_chain_amended s b"
  by (simp add: str_opt_def py_or_def static_chain_amended_def split: option.splits)

lemma page_chain:
  "str_opt (py_or (original b) (large b)) = static_chain_amended None b"
  by (simp add: str_opt_def py_or_def static_chain_amended_def split: option.splits)

lemma zip_chain: "py_or (py_or (original b) (large b)) (medium b) = fallback_chain_spec b"
  by (simp add: py_or_def fallback_chain_spec_def split: option.splits)

lemma ILLUST_pages_trace:
  "prefix (snd (ILLUST_download_pages w ps out acc))
     (map (\<lambda>p. Download (Some (static_chain_amended None (image_urls p))) out) ps)"
proof (induction ps arbitrary: acc)
  case Nil
  then show ?case by (simp add: io_return_def)
next
  case (Cons p ps)
  show ?case
    by (simp add: snd_io_bind client_download_def page_chain Cons.IH split: sum.splits)
qed


lemma ILLUST_pages_ok:
  "\<forall>p \<in> set ps. \<exists>d. download_bytes w (Some (static_chain_amended None
      (image_urls p))) out = Inr d \<Longrightarrow>
   ILLUST_download_pages w ps out acc =
     (Inr (acc @ map (\<lambda>p. projr (download_bytes w (Some (static_chain_amended None
         (image_urls p))) out)) ps),
      map (\<lambda>p. Download (Some (static_chain_amended None (image_urls p))) out) ps)"
proof (induction ps arbitrary: acc)
  case Nil
  then show ?case by (simp add: io_return_def)
next
  case (Cons p ps)
  from Cons.prems obtain d where
    d: "download_bytes w (Some (static_chain_amended None (image_urls p))) out = Inr d" by auto
  from Cons.prems have rest:
    "\<forall>q \<in> set ps. \<exists>d. download_bytes w (Some (static_chain_amended None
        (image_urls q))) out = Inr d"
    by simp
  show ?case
    by (simp add: client_download_def page_chain d io_bind_Inr Cons.IH [OF rest])
qed

lemma download_one:
  "io_bind (client_download w u out) (\<lambda>d. io_return [d]) =
     ((case download_bytes w u out of Inl e \<Rightarrow> Inl e | Inr d \<Rightarrow> Inr [d]),
         [Download u out])"
  by (cases "download_bytes w u out")
     (simp_all add: client_download_def io_bind_Inl io_bind_Inr io_return_def)

lemma ILLUST_detail_ok:
  "base_detail w i flt = Inr js \<Longrightarrow> parse_detail w js = Inr res \<Longrightarrow>
   ILLUST_detail w i flt = (Inr res, [SectionDetail i flt])"
  by (simp add: ILLUST_detail_def super_detail_def io_bind_Inr io_lift_def)

lemma ILLUST_download_on_ugoira:
  assumes "base_detail w i flt = Inr js" and "parse_detail w js = Inr res"
    and "artwork_type (illust_of res) = ugoira"
  shows "ILLUST_download w i full flt out =
     (Inl (ArtWorkTypeError msg_use_download_ugoira), [SectionDetail i flt])"
  unfolding ILLUST_download_def ILLUST_detail_ok [OF assms(1,2)] ugoira_eq
  by (simp add: io_bind_Inr Let_def io_bind_lift_Inr assms(3) io_raise_def)

lemma ILLUST_download_single:
  assumes "base_detail w i flt = Inr js" and "parse_detail w js = Inr res"
    and "artwork_type (illust_of res) \<noteq> ugoira"
    and "\<not> full \<or> meta_pages (illust_of res) = []"
  shows "ILLUST_download w i full flt out =
     ((case download_bytes w (Some (static_chain_amended
              (original_image_url (meta_single_page (illust_of res)))
              (artwork_image_urls (illust_of res)))) out of
         Inl e \<Rightarrow> Inl e | Inr d \<Rightarrow> Inr [d]),
      [SectionDetail i flt,
       Download (Some (static_chain_amended
              (original_image_url (meta_single_page (illust_of res)))
              (artwork_image_urls (illust_of res)))) out])"
  unfolding ILLUST_download_def ILLUST_detail_ok [OF assms(1,2)] ugoira_eq
  using assms(3,4)
  by (auto simp add: io_bind_Inr Let_def io_bind_lift_Inr download_one single_chain)

lemma ILLUST_download_full:
  assumes "base_detail w i flt = Inr js" and "parse_detail w js = Inr res"
    and "artwork_type (illust_of res) \<noteq> ugoira"
    and "full" and "meta_pages (illust_of res) \<noteq> []"
  shows "ILLUST_download w i full flt out =
     (fst (ILLUST_download_pages w (meta_pages (illust_of res)) out []),
      SectionDetail i flt # snd (ILLUST_download_pages w (meta_pages (illust_of res)) out []))"
  unfolding ILLUST_download_def ILLUST_detail_ok [OF assms(1,2)] ugoira_eq
  using assms(3,4,5)
  by (simp add: io_bind_Inr Let_def io_bind_lift_Inr)

lemma ArtWork_download_single:
  assumes "\<not> full \<or> meta_pages self = []"
  shows "ArtWork_download self full out (Some w) w' =
     ((case download_bytes w (Some (static_chain_amended
              (original_image_url (meta_single_page self)) (artwork_image_urls self))) None of
         Inl e \<Rightarrow> Inl e | Inr d \<Rightarrow> Inr [d]),
      [Download (Some (static_chain_amended
              (original_image_url (meta_single_page self)) (artwork_image_urls self))) None])"
  using assms
  by (auto simp add: ArtWork_download_def resolve_client_def Let_def download_one single_chain)


lemma ArtWork_download_ugoira_wrong_type:
  "artwork_type self \<noteq> ugoira \<Longrightarrow>
   ArtWork_download_ugoira self client w' ty = (Inl (ArtWorkTypeError msg_use_download), [])"
  unfolding ArtWork_download_ugoira_def ugoira_ne
  by (simp add: io_bind_lift_Inr io_raise_def)

lemma pages_no_api: "filter is_api_call (snd (ILLUST_download_pages w ps out acc)) = []"
  by (induction ps arbitrary: acc)
     (simp_all add: io_return_def snd_io_bind client_download_def split: sum.splits)

lemma pages_outputs:
  "\<forall>a \<in> set (download_args (snd (ILLUST_download_pages w ps out acc))). snd a = out"
  by (induction ps arbitrary: acc)
     (simp_all add: io_return_def snd_io_bind client_download_def download_args_append
        split: sum.splits)

lemma pages_length: "length (snd (ILLUST_download_pages w ps out acc)) \<le> length ps"
  using ILLUST_pages_trace [of w ps out acc] by (auto dest: prefix_length_le)

lemma pages_all_downloads:
  "filter is_download (snd (ILLUST_download_pages w ps out acc)) = snd (ILLUST_download_pages w ps out acc)"
  by (induction ps arbitrary: acc)
     (simp_all add: io_return_def snd_io_bind client_download_def split: sum.splits)

lemma read_frames_no_requests:
  "filter (\<lambda>e. is_api_call e \<or> is_download e) (snd (read_frames z fs acc)) = []"
  by (induction fs arbitrary: acc)
     (simp_all add: io_return_def snd_io_bind zip_read_def split: sum.splits option.splits)

lemma read_frames_no_api: "filter is_api_call (snd (read_frames z fs acc)) = []"
  by (induction fs arbitrary: acc)
     (simp_all add: io_return_def snd_io_bind zip_read_def split: sum.splits option.splits)

lemma read_frames_no_download: "filter is_download (snd (read_frames z fs acc)) = []"
  by (induction fs arbitrary: acc)
     (simp_all add: io_return_def snd_io_bind zip_read_def split: sum.splits option.splits)

lemma ILLUST_download_api_calls:
  "api_calls (snd (ILLUST_download w i full flt out)) = [SectionDetail i flt]"
  by (auto simp add: api_calls_def ILLUST_download_def ILLUST_detail_def super_detail_def
      snd_io_bind io_lift_def io_raise_def io_return_def client_download_def Let_def pages_no_api
      split: sum.splits)

lemma ILLUST_download_ugoira_api_calls:
  "api_calls (snd (ILLUST_download_ugoira w i ty)) =
     [Get (V1_API ''ugoira/metadata'') [(''illust_id'', PyInt i)]]"
  by (auto simp add: api_calls_def ILLUST_download_ugoira_def ILLUST_ugoira_metadata_def
      client_get_def snd_io_bind io_lift_def io_return_def client_download_def Let_def
      ZipFile_new_def read_frames_no_api split: sum.splits option.splits)

lemma ILLUST_download_ugoira_downloads:
  assumes "get_json w (V1_API ''ugoira/metadata'') [(''illust_id'', PyInt i)] = Inr js"
    and "parse_ugoira w js = Inr res"
  shows "downloads (snd (ILLUST_download_ugoira w i ty)) =
     [Download (fallback_chain_spec (zip_url (metadata res))) None]"
  unfolding ILLUST_download_ugoira_unfold [OF assms]
  by (auto simp add: downloads_def snd_io_bind io_return_def client_download_def Let_def
      ZipFile_new_def read_frames_no_download zip_chain split: sum.splits option.splits)

lemma one_request:
  "length (requests (snd (ILLUST_follow w offset))) = 1"
  "length (requests (snd (ILLUST_search w word sort' target duration flt offset mn mx sd ed))) = 1"
  "length (requests (snd (ILLUST_detail w i flt))) = 1"
  "length (requests (snd (ILLUST_comments w i offset))) = 1"
  "length (requests (snd (ILLUST_related w i flt offset seed_ids))) = 1"
  "length (requests (snd (ILLUST_recommended w wa ct rl ri offset flt mb mi bi ip vw))) = 1"
  "length (requests (snd (ILLUST_new_illusts w nt flt mx))) = 1"
  "length (requests (snd (ILLUST_ugoira_metadata w i))) = 1"
  by (simp_all add: requests_def ILLUST_follow_def ILLUST_search_def ILLUST_detail_def
      ILLUST_comments_def ILLUST_related_def ILLUST_recommended_def ILLUST_new_illusts_def
      ILLUST_ugoira_metadata_def client_get_def super_search_def super_detail_def
      snd_io_bind io_lift_def Let_def split: sum.splits)

lemma title_examples:
  "replace_hyphen (title ''r-18'') = ''R18''"
  "replace_hyphen (title ''original'') = ''Original''"
  by code_simp+

lemma frame_payloads_nth:
  "length (frame_payloads z fs) = length fs
   \<and> ((\<forall>f \<in> set fs. readable z (frame_file f)) \<longrightarrow>
       (\<forall>k < length fs. z (frame_file (fs ! k)) = Some (Inr (frame_payloads z fs ! k))))"
proof (intro conjI allI impI)
  show "length (frame_payloads z fs) = length fs"
    by (simp add: frame_payloads_def)
next
  fix k
  assume all: "\<forall>f \<in> set fs. readable z (frame_file f)" and k: "k < length fs"
  from k have "fs ! k \<in> set fs" by simp
  with all have "readable z (frame_file (fs ! k))" by blast
  then obtain b where b: "z (frame_file (fs ! k)) = Some (Inr b)"
    by (auto simp add: readable_iff)
  with k show "z (frame_file (fs ! k)) = Some (Inr (frame_payloads z fs ! k))"
    by (simp add: frame_payloads_def member_bytes_def)
qed

lemma download_args_prefix: "prefix xs ys \<Longrightarrow> prefix (download_args xs) (download_args ys)"
  by (auto simp add: prefix_def download_args_append)

lemma download_args_map:
  "download_args (map (\<lambda>p. Download (u p) out) ps) = map (\<lambda>p. (u p, out)) ps"
  by (induction ps) simp_all

lemma pages_urls_prefix:
  "prefix (map fst (download_args (snd (ILLUST_download_pages w ps out acc))))
     (map (\<lambda>p. Some (static_chain_amended None (image_urls p))) ps)"
proof -
  have "prefix (download_args (snd (ILLUST_download_pages w ps out acc)))
          (download_args (map (\<lambda>p. Download (Some (static_chain_amended None (image_urls p))) out) ps))"
    by (rule download_args_prefix [OF ILLUST_pages_trace])
  then have "prefix (map fst (download_args (snd (ILLUST_download_pages w ps out acc))))
          (map fst (map (\<lambda>p. (Some (static_chain_amended None (image_urls p)), out)) ps))"
    unfolding download_args_map by (rule map_mono_prefix)
  then show ?thesis by (simp add: comp_def)
qed



lemma requests_split: "length (requests tr) = length (api_calls tr) + length (downloads tr)"
proof (induction tr)
  case Nil
  then show ?case by (simp add: requests_def api_calls_def downloads_def)
next
  case (Cons e tr)
  then show ?case by (cases e) (simp_all add: requests_def api_calls_def downloads_def)
qed

lemma pages_requests:
  "requests (snd (ILLUST_download_pages w ps out acc)) = snd (ILLUST_download_pages w ps out acc)"
  by (induction ps arbitrary: acc)
     (simp_all add: requests_def io_return_def snd_io_bind client_download_def split: sum.splits)

lemma ILLUST_pages_first_failure:
  assumes "\<forall>p \<in> set pre. \<exists>d. download_bytes w (Some (static_chain_amended None
      (image_urls p))) out = Inr d"
    and "download_bytes w (Some (static_chain_amended None (image_urls q))) out = Inl e"
  shows "ILLUST_download_pages w (pre @ q # post) out acc =
     (Inl e, map (\<lambda>p. Download (Some (static_chain_amended None (image_urls p))) out) (pre @ [q]))"
  using assms(1)
proof (induction pre arbitrary: acc)
  case Nil
  show ?case
    by (simp add: client_download_def page_chain assms(2) io_bind_Inl)
next
  case (Cons p pre)
  from Cons.prems obtain d where
    d: "download_bytes w (Some (static_chain_amended None (image_urls p))) out = Inr d" by auto
  from Cons.prems have rest:
    "\<forall>r \<in> set pre. \<exists>d. download_bytes w (Some (static_chain_amended None
        (image_urls r))) out = Inr d"
    by simp
  show ?case
    by (simp add: client_download_def page_chain d io_bind_Inr Cons.IH [OF rest])
qed

lemma ILLUST_detail_trace: "snd (ILLUST_detail w i flt) = [SectionDetail i flt]"
  by (simp add: ILLUST_detail_def super_detail_def snd_io_bind io_lift_def split: sum.splits)

lemma ILLUST_detail_Inr:
  "fst (ILLUST_detail w i flt) = Inr res \<Longrightarrow>
   \<exists>js. base_detail w i flt = Inr js \<and> parse_detail w js = Inr res"
  by (simp add: ILLUST_detail_def super_detail_def fst_io_bind io_lift_def split: sum.splits)

lemma ILLUST_download_detail_fails:
  assumes "fst (ILLUST_detail w i flt) = Inl e"
  shows "ILLUST_download w i full flt out = (Inl e, [SectionDetail i flt])"
proof -
  have "ILLUST_detail w i flt = (Inl e, [SectionDetail i flt])"
    using assms ILLUST_detail_trace [of w i flt] by (cases "ILLUST_detail w i flt") simp
  then show ?thesis by (simp add: ILLUST_download_def io_bind_Inl)
qed

lemma ILLUST_ugoira_metadata_trace:
  "snd (ILLUST_ugoira_metadata w i) = [Get (V1_API ''ugoira/metadata'') [(''illust_id'', PyInt i)]]"
  by (simp add: ILLUST_ugoira_metadata_def client_get_def snd_io_bind io_lift_def
      split: sum.splits)

lemma ILLUST_ugoira_metadata_Inr:
  "fst (ILLUST_ugoira_metadata w i) = Inr res \<Longrightarrow>
   \<exists>js. get_json w (V1_API ''ugoira/metadata'') [(''illust_id'', PyInt i)] = Inr js
        \<and> parse_ugoira w js = Inr res"
  by (simp add: ILLUST_ugoira_metadata_def client_get_def fst_io_bind io_lift_def
      split: sum.splits)

lemma ILLUST_download_ugoira_metadata_fails:
  assumes "fst (ILLUST_ugoira_metadata w i) = Inl e"
  shows "ILLUST_download_ugoira w i ty =
     (Inl e, [Get (V1_API ''ugoira/metadata'') [(''illust_id'', PyInt i)]])"
proof -
  have "ILLUST_ugoira_metadata w i =
      (Inl e, [Get (V1_API ''ugoira/metadata'') [(''illust_id'', PyInt i)]])"
    using assms ILLUST_ugoira_metadata_trace [of w i]
    by (cases "ILLUST_ugoira_metadata w i") simp
  then show ?thesis by (simp add: ILLUST_download_ugoira_def io_bind_Inl)
qed




section \<open>The artwork type and the derived properties\<close>

text \<open>
  C7: for every artwork record, \<open>is_nsfw\<close> is true if and only if the record's
  \<open>sanity_level\<close> is strictly greater than 5.
\<close>

theorem is_nsfw_iff: "is_nsfw a \<longleftrightarrow> 5 < sanity_level a"
  by (simp add: is_nsfw_def)

theorem is_nsfw_iff_witness:
  "is_nsfw (single_art\<lparr>sanity_level := 6\<rparr>) \<and> \<not> is_nsfw
      (single_art\<lparr>sanity_level := 5\<rparr>)"
  using is_nsfw_iff [of "single_art\<lparr>sanity_level := 6\<rparr>"]
        is_nsfw_iff [of "single_art\<lparr>sanity_level := 5\<rparr>"]
  by simp

text \<open>
  C10, as amended: equality of \<open>ArtWorkType\<close> is by value and compatible with strings.
  Every member equals itself; two members are equal exactly when their values are equal;
  a member equals a string exactly when its value is that string, so
  \<open>ArtWorkType.ugoira\<close> equals the string \<open>ugoira\<close>; comparing with a value on which
  \<open>str\<close> raises an instance of \<open>TypeError\<close> or of \<open>ValueError\<close> (the class itself or
  any class that inherits from it) gives \<open>False\<close>, not an error; any other exception
  that \<open>str\<close> raises on the value propagates out of the comparison.
\<close>

theorem ArtWorkType_eq_value_based:
  "ArtWorkType_eq t (OArtWorkType t) = Inr True
   \<and> ArtWorkType_eq t (OArtWorkType u) = Inr (value_of t = value_of u)
   \<and> ArtWorkType_eq t (OStr s) = Inr (value_of t = s)
   \<and> ArtWorkType_eq ugoira (OStr ''ugoira'') = Inr True
   \<and> (isinstance_exc x ''TypeError'' \<or> isinstance_exc x ''ValueError'' \<longrightarrow>
        ArtWorkType_eq t (OObject (Inl x)) = Inr False)
   \<and> (\<not> isinstance_exc x ''TypeError'' \<and> \<not> isinstance_exc x ''ValueError'' \<longrightarrow>
        ArtWorkType_eq t (OObject (Inl x)) = Inl (Raised x))"
  by simp

theorem ArtWorkType_eq_value_based_witness:
  "ArtWorkType_eq manga (OArtWorkType manga) = Inr True
   \<and> ArtWorkType_eq manga (OArtWorkType novel) = Inr False
   \<and> ArtWorkType_eq manga (OStr ''manga'') = Inr True
   \<and> ArtWorkType_eq manga (OStr ''Manga'') = Inr False
   \<and> ArtWorkType_eq manga (OObject (Inl type_error)) = Inr False
   \<and> ArtWorkType_eq manga (OObject (Inl unicode_decode_error)) = Inr False
   \<and> ArtWorkType_eq manga (OObject (Inl runtime_error)) = Inl (Raised runtime_error)"
  using ArtWorkType_eq_value_based [of manga novel "''manga''" type_error]
        ArtWorkType_eq_value_based [of manga manga "''Manga''" unicode_decode_error]
        ArtWorkType_eq_value_based [of manga manga "''Manga''" runtime_error]
  by (simp add: type_error_def unicode_decode_error_def runtime_error_def)

text \<open>
  Not every value that \<open>str\<close> fails on compares as \<open>False\<close>: when its \<open>__str__\<close>
  raises an exception that is an instance of neither class that \<open>__eq__\<close> catches, the
  comparison raises.
\<close>

theorem ArtWorkType_eq_raises_counterexample:
  "ArtWorkType_eq ugoira (OObject (Inl runtime_error)) = Inl (Raised runtime_error)"
  by (simp add: runtime_error_def)

text \<open>
  C9: \<open>is_r18\<close> never fails. On an empty list of tags it is \<open>False\<close>, the indexing of
  the first tag being reached only behind the length test; on a non-empty list it is
  true exactly when the name of the first tag, title-cased and with its hyphens removed,
  is \<open>R18\<close>.
\<close>

theorem is_r18_guarded:
  "(tags a = [] \<longrightarrow> is_r18 a = Inr False)
   \<and> (\<forall>t ts. tags a = t # ts \<longrightarrow>
          is_r18 a = Inr (replace_hyphen (title (name t)) = ''R18''))
   \<and> (\<forall>e. is_r18 a \<noteq> Inl e)"
  by (cases "tags a") (simp_all add: is_r18_def index0_def)

theorem is_r18_guarded_witness:
  "is_r18 (tagged_art []) = Inr False
   \<and> is_r18 (tagged_art [\<lparr>name = ''r-18''\<rparr>, \<lparr>name = ''original''\<rparr>]) = Inr True
   \<and> is_r18 (tagged_art [\<lparr>name = ''original''\<rparr>, \<lparr>name =
       ''R-18''\<rparr>]) = Inr False"
  using is_r18_guarded [of "tagged_art []"]
        is_r18_guarded [of "tagged_art [\<lparr>name = ''r-18''\<rparr>, \<lparr>name = ''original''\<rparr>]"]
        is_r18_guarded [of "tagged_art [\<lparr>name = ''original''\<rparr>, \<lparr>name = ''R-18''\<rparr>]"]
  by (simp add: tagged_art_def mk_artwork_def title_examples)

section \<open>Static-image downloads\<close>

text \<open>
  C1: the wrong download method for an artwork's type raises \<open>ArtWorkTypeError\<close>.
  \<open>ILLUST.download\<close> on an ugoira and \<open>ArtWork.download_ugoira\<close> on another type do
  (\<open>ILLUST_download_on_ugoira\<close>, \<open>ArtWork_download_ugoira_wrong_type\<close>).
  \<open>ArtWork.download\<close> has no such test: on an ugoira whose cover the transport delivers
  it returns that payload, and the only event is the download.
\<close>

theorem ArtWork_download_no_type_check:
  assumes "artwork_type self = ugoira"
    and "download_bytes w (Some (static_chain_amended
            (original_image_url (meta_single_page self)) (artwork_image_urls self))) None = Inr d"
  shows "ArtWork_download self False out (Some w) w' =
     (Inr [d], [Download (Some (static_chain_amended
            (original_image_url (meta_single_page self)) (artwork_image_urls self))) None])"
  by (simp add: ArtWork_download_single assms(2))

theorem ArtWork_download_no_type_check_witness:
  "artwork_type ugoira_art = ugoira
   \<and> ArtWork_download ugoira_art False None (Some (example_world ugoira_art))
        (example_world ugoira_art) =
      (Inr [Some [1, 2, 3]], [Download (Some ''https://i.example/cover.jpg'') None])"
  using ArtWork_download_no_type_check [of ugoira_art "example_world ugoira_art"
          "Some [1, 2, 3]" None "example_world ugoira_art"]
  by (simp add: ugoira_art_def mk_artwork_def mk_urls_def example_world_def mk_world_def
      some_data_def static_chain_amended_def)

text \<open>
  C4: a download saves to the destination the caller gives. \<open>ILLUST.download\<close> passes
  \<open>output\<close> on in both branches, and so does the loop of \<open>ArtWork.download\<close>
  (\<open>pages_outputs\<close>); the single-page branch of \<open>ArtWork.download\<close> calls the transport
  without it: whatever \<open>output\<close> is, the one download it makes carries none.
\<close>

theorem ArtWork_download_single_drops_output:
  "\<not> full \<or> meta_pages self = [] \<Longrightarrow>
   map snd (download_args (snd (ArtWork_download self full out (Some w) w'))) = [None]"
  by (simp add: ArtWork_download_single)

theorem ArtWork_download_single_drops_output_witness:
  "map snd (download_args (snd (ArtWork_download single_art False (Some ''out.jpg'')
      (Some (example_world single_art)) (example_world single_art)))) = [None]
   \<and> download_args (snd (ILLUST_download (example_world single_art) 7 False PyNone
        (Some ''out.jpg''))) = [(Some ''https://i.example/orig.jpg'', Some ''out.jpg'')]"
  using ArtWork_download_single_drops_output [of False single_art "Some ''out.jpg''"
          "example_world single_art" "example_world single_art"]
        ILLUST_download_single [of "example_world single_art" 7 PyNone PyNone
          "\<lparr>illust_of = single_art\<rparr>" False "Some ''out.jpg''"]
  by (simp add: single_art_def mk_artwork_def mk_urls_def example_world_def mk_world_def
      some_data_def static_chain_amended_def)




section \<open>Query parameters and requests\<close>

text \<open>
  C5: what \<open>ILLUST.related\<close> sends as \<open>seed_illust_ids\<close>. The test \<open>seed_ids is not list\<close>
  holds for every list, every integer and \<open>None\<close>, so each is wrapped in a new list: a
  list of ids is sent as a one-element list holding that list, \<open>None\<close> as the list
  holding \<open>None\<close>, and a single id as the list holding it.
\<close>

theorem related_wraps_every_seed_ids:
  "snd (ILLUST_related w i flt offset (PyList ids)) =
     [Get (V2_API ''illust/related'')
        [(''illust_id'', PyInt i), (''offset'', opt_int offset), (''filter'', flt),
         (''seed_illust_ids'', PyList [PyList ids])]]
   \<and> snd (ILLUST_related w i flt offset PyNone) =
     [Get (V2_API ''illust/related'')
        [(''illust_id'', PyInt i), (''offset'', opt_int offset), (''filter'', flt),
         (''seed_illust_ids'', PyList [PyNone])]]
   \<and> snd (ILLUST_related w i flt offset (PyInt k)) =
     [Get (V2_API ''illust/related'')
        [(''illust_id'', PyInt i), (''offset'', opt_int offset), (''filter'', flt),
         (''seed_illust_ids'', PyList [PyInt k])]]"
  by (simp add: ILLUST_related_def client_get_def snd_io_bind io_lift_def seed_illust_ids_def
      split: sum.splits)

theorem related_wraps_every_seed_ids_witness:
  "snd (ILLUST_related (example_world single_art) 7 (PyStr ''for_ios'') None
          (PyList [PyInt 1, PyInt 2])) =
     [Get (V2_API ''illust/related'')
        [(''illust_id'', PyInt 7), (''offset'', PyNone), (''filter'', PyStr ''for_ios''),
         (''seed_illust_ids'', PyList [PyList [PyInt 1, PyInt 2]])]]"
  using related_wraps_every_seed_ids [of "example_world single_art" 7 "PyStr ''for_ios''" None
          "[PyInt 1, PyInt 2]" 0]
  by (simp add: opt_int_def)

text \<open>
  C6, as amended: each of \<open>follow\<close>, \<open>search\<close>, \<open>detail\<close>, \<open>comments\<close>, \<open>related\<close>,
  \<open>recommended\<close>, \<open>new_illusts\<close> and \<open>ugoira_metadata\<close> issues exactly one request per
  call. \<open>download\<close> makes exactly one call of the API layer, the detail call; when that
  call fails or the artwork is an ugoira it issues nothing else (one request); otherwise
  it downloads one payload when \<open>full\<close> is false or there are no pages (two requests),
  and else one payload per page in order, stopping after the first download that fails
  (one request more than there are pages when every download succeeds, one request more
  than the number of pages up to and including the first failing one otherwise).
  \<open>download_ugoira\<close> makes exactly one call of the API layer, the metadata call; when it
  fails nothing else is issued (one request), otherwise exactly one download of the
  archive follows (two requests).
\<close>

theorem requests_per_call:
  "length (requests (snd (ILLUST_follow w offset))) = 1
   \<and> length (requests (snd (ILLUST_search w word sort' target duration flt offset mn mx sd ed))) = 1
   \<and> length (requests (snd (ILLUST_detail w i flt))) = 1
   \<and> length (requests (snd (ILLUST_comments w i offset))) = 1
   \<and> length (requests (snd (ILLUST_related w i flt offset seed_ids))) = 1
   \<and> length (requests (snd (ILLUST_recommended w wa ct rl ri offset flt mb mi bi ip vw))) = 1
   \<and> length (requests (snd (ILLUST_new_illusts w nt flt mx))) = 1
   \<and> length (requests (snd (ILLUST_ugoira_metadata w i))) = 1
   \<and> api_calls (snd (ILLUST_download w i full flt out)) = [SectionDetail i flt]
   \<and> api_calls (snd (ILLUST_download_ugoira w i ty)) =
        [Get (V1_API ''ugoira/metadata'') [(''illust_id'', PyInt i)]]
   \<and> (fst (ILLUST_detail w i flt) = Inl e \<longrightarrow> length (requests (snd
       (ILLUST_download w i full flt out))) = 1)
   \<and> (fst (ILLUST_detail w i flt) = Inr res \<and> artwork_type (illust_of res) = ugoira
       \<longrightarrow> length (requests (snd (ILLUST_download w i full flt out))) = 1)
   \<and> (fst (ILLUST_detail w i flt) = Inr res \<and> artwork_type (illust_of res) \<noteq>
       ugoira \<longrightarrow>
        (\<not> full \<or> meta_pages (illust_of res) = [] \<longrightarrow> length (requests (snd
            (ILLUST_download w i full flt out))) = 2)
        \<and> (full \<and> meta_pages (illust_of res) \<noteq> [] \<and> (\<forall>p \<in> set
            (meta_pages (illust_of res)). \<exists>d. download_bytes w (Some (static_chain_amended
            None (image_urls p))) out = Inr d) \<longrightarrow>
             length (requests (snd (ILLUST_download w i full flt out))) = 1 + length (meta_pages
                 (illust_of res)))
        \<and> (full \<and> meta_pages (illust_of res) = pre @ q # post \<and> (\<forall>p \<in>
            set pre. \<exists>d. download_bytes w (Some (static_chain_amended None (image_urls
            p))) out = Inr d) \<and> download_bytes w (Some (static_chain_amended None (image_urls
            q))) out = Inl e' \<longrightarrow>
             length (requests (snd (ILLUST_download w i full flt out))) = 1 + (length pre + 1)))
   \<and> (fst (ILLUST_ugoira_metadata w i) = Inl e \<longrightarrow> length (requests (snd
       (ILLUST_download_ugoira w i ty))) = 1)
   \<and> (fst (ILLUST_ugoira_metadata w i) = Inr mres \<longrightarrow> length (requests (snd
       (ILLUST_download_ugoira w i ty))) = 2)"
proof -
  have df: "fst (ILLUST_detail w i flt) = Inl e \<longrightarrow> length (requests (snd
      (ILLUST_download w i full flt out))) = 1"
    by (simp add: ILLUST_download_detail_fails requests_def)
  have du: "fst (ILLUST_detail w i flt) = Inr res \<and> artwork_type (illust_of res) = ugoira
      \<longrightarrow> length (requests (snd (ILLUST_download w i full flt out))) = 1"
  proof
    assume h: "fst (ILLUST_detail w i flt) = Inr res \<and> artwork_type (illust_of res) = ugoira"
    then obtain js where js: "base_detail w i flt = Inr js" "parse_detail w js = Inr res"
      using ILLUST_detail_Inr [of w i flt res] by blast
    from h have u: "artwork_type (illust_of res) = ugoira" by simp
    show "length (requests (snd (ILLUST_download w i full flt out))) = 1"
      by (simp add: ILLUST_download_on_ugoira [OF js u] requests_def)
  qed
  have dl: "fst (ILLUST_detail w i flt) = Inr res \<and> artwork_type (illust_of res) \<noteq>
      ugoira \<longrightarrow>
        (\<not> full \<or> meta_pages (illust_of res) = [] \<longrightarrow> length (requests (snd
            (ILLUST_download w i full flt out))) = 2)
        \<and> (full \<and> meta_pages (illust_of res) \<noteq> [] \<and> (\<forall>p \<in> set
            (meta_pages (illust_of res)). \<exists>d. download_bytes w (Some (static_chain_amended
            None (image_urls p))) out = Inr d) \<longrightarrow>
             length (requests (snd (ILLUST_download w i full flt out))) = 1 + length (meta_pages
                 (illust_of res)))
        \<and> (full \<and> meta_pages (illust_of res) = pre @ q # post \<and> (\<forall>p \<in>
            set pre. \<exists>d. download_bytes w (Some (static_chain_amended None (image_urls
            p))) out = Inr d) \<and> download_bytes w (Some (static_chain_amended None (image_urls
            q))) out = Inl e' \<longrightarrow>
             length (requests (snd (ILLUST_download w i full flt out))) = 1 + (length pre + 1))"
  proof (intro impI)
    assume h: "fst (ILLUST_detail w i flt) = Inr res \<and> artwork_type (illust_of res) \<noteq> ugoira"
    then obtain js where js: "base_detail w i flt = Inr js" "parse_detail w js = Inr res"
      using ILLUST_detail_Inr [of w i flt res] by blast
    from h have nu: "artwork_type (illust_of res) \<noteq> ugoira" by simp
    have fl: "full \<Longrightarrow> meta_pages (illust_of res) \<noteq> [] \<Longrightarrow>
        requests (snd (ILLUST_download w i full flt out)) =
          SectionDetail i flt # snd (ILLUST_download_pages w (meta_pages (illust_of res)) out [])"
    proof -
      assume f: "full" and ne: "meta_pages (illust_of res) \<noteq> []"
      have "requests (snd (ILLUST_download w i full flt out)) =
          SectionDetail i flt # requests (snd (ILLUST_download_pages w (meta_pages (illust_of res)) out []))"
        by (simp add: ILLUST_download_full [OF js nu f ne] requests_def)
      then show ?thesis by (simp only: pages_requests)
    qed
    show "(\<not> full \<or> meta_pages (illust_of res) = [] \<longrightarrow> length (requests
        (snd (ILLUST_download w i full flt out))) = 2)
        \<and> (full \<and> meta_pages (illust_of res) \<noteq> [] \<and> (\<forall>p \<in> set
            (meta_pages (illust_of res)). \<exists>d. download_bytes w (Some (static_chain_amended
            None (image_urls p))) out = Inr d) \<longrightarrow>
             length (requests (snd (ILLUST_download w i full flt out))) = 1 + length (meta_pages
                 (illust_of res)))
        \<and> (full \<and> meta_pages (illust_of res) = pre @ q # post \<and> (\<forall>p \<in>
            set pre. \<exists>d. download_bytes w (Some (static_chain_amended None (image_urls
            p))) out = Inr d) \<and> download_bytes w (Some (static_chain_amended None (image_urls
            q))) out = Inl e' \<longrightarrow>
             length (requests (snd (ILLUST_download w i full flt out))) = 1 + (length pre + 1))"
    proof (intro conjI impI)
      assume "\<not> full \<or> meta_pages (illust_of res) = []"
      then show "length (requests (snd (ILLUST_download w i full flt out))) = 2"
        by (simp add: ILLUST_download_single [OF js nu] requests_def)
    next
      assume a: "full \<and> meta_pages (illust_of res) \<noteq> [] \<and> (\<forall>p \<in> set
          (meta_pages (illust_of res)). \<exists>d. download_bytes w (Some (static_chain_amended
          None (image_urls p))) out = Inr d)"
      then have ok: "(\<forall>p \<in> set (meta_pages (illust_of res)). \<exists>d.
          download_bytes w (Some (static_chain_amended None (image_urls p))) out = Inr d)" by simp
      from a have f: "full" and ne: "meta_pages (illust_of res) \<noteq> []" by simp_all
      show "length (requests (snd (ILLUST_download w i full flt out))) = 1 + length (meta_pages
          (illust_of res))"
        unfolding fl [OF f ne] by (simp add: ILLUST_pages_ok [OF ok])
    next
      assume a: "full \<and> meta_pages (illust_of res) = pre @ q # post \<and> (\<forall>p \<in>
          set pre. \<exists>d. download_bytes w (Some (static_chain_amended None (image_urls p)))
          out = Inr d) \<and> download_bytes w (Some (static_chain_amended None (image_urls q)))
          out = Inl e'"
      then have ok: "(\<forall>p \<in> set pre. \<exists>d. download_bytes w (Some
          (static_chain_amended None (image_urls p))) out = Inr d)" and fq: "download_bytes w
          (Some (static_chain_amended None (image_urls q))) out = Inl e'" by simp_all
      from a have f: "full" and sp: "meta_pages (illust_of res) = pre @ q # post" by simp_all
      from sp have ne: "meta_pages (illust_of res) \<noteq> []" by simp
      show "length (requests (snd (ILLUST_download w i full flt out))) = 1 + (length pre + 1)"
        unfolding fl [OF f ne] sp by (simp add: ILLUST_pages_first_failure [OF ok fq])
    qed
  qed
  have uf: "fst (ILLUST_ugoira_metadata w i) = Inl e \<longrightarrow> length (requests (snd
      (ILLUST_download_ugoira w i ty))) = 1"
    by (simp add: ILLUST_download_ugoira_metadata_fails requests_def)
  have uo: "fst (ILLUST_ugoira_metadata w i) = Inr mres \<longrightarrow> length (requests (snd
      (ILLUST_download_ugoira w i ty))) = 2"
  proof
    assume "fst (ILLUST_ugoira_metadata w i) = Inr mres"
    then obtain js where js:
      "get_json w (V1_API ''ugoira/metadata'') [(''illust_id'', PyInt i)] = Inr js"
      "parse_ugoira w js = Inr mres"
      using ILLUST_ugoira_metadata_Inr [of w i mres] by blast
    show "length (requests (snd (ILLUST_download_ugoira w i ty))) = 2"
      by (simp add: requests_split ILLUST_download_ugoira_api_calls
          ILLUST_download_ugoira_downloads [OF js])
  qed
  from df du dl uf uo show ?thesis
    by (simp only: one_request ILLUST_download_api_calls ILLUST_download_ugoira_api_calls
        simp_thms)
qed

theorem requests_per_call_witness:
  "length (requests (snd (ILLUST_follow (example_world manga_art) None))) = 1
   \<and> length (requests (snd (ILLUST_download (example_world manga_art) 7 False PyNone None))) = 2
   \<and> length (requests (snd (ILLUST_download (example_world manga_art) 7 True PyNone None))) = 3
   \<and> length (requests (snd (ILLUST_download (flaky_world manga_art) 7 True PyNone None))) = 2
   \<and> length (requests (snd (ILLUST_download ugoira_world 7 True PyNone None))) = 1
   \<and> length (requests (snd (ILLUST_download offline_world 7 True PyNone None))) = 1
   \<and> length (requests (snd (ILLUST_download_ugoira ugoira_world 7 ''jpg''))) = 2
   \<and> length (requests (snd (ILLUST_download_ugoira offline_world 7 ''jpg''))) = 1"
proof -
  note inst = requests_per_call [where i = 7 and flt = PyNone and out = None
      and offset = None and ty = "''jpg''"
      and mres = "\<lparr>metadata = example_metadata\<rparr>" and pre = "[]"
      and q = "\<lparr>image_urls = mk_urls (Some ''https://i.example/p0.jpg'')
                        (Some ''https://i.example/p0_large.jpg'') None\<rparr>"
      and post = "[\<lparr>image_urls = mk_urls None (Some ''https://i.example/p1_large.jpg'')
                        (Some ''https://i.example/p1_medium.jpg'')\<rparr>]"
      and e = "OtherError ''offline''" and e' = "OtherError ''timeout''"]
  note defs = manga_art_def ugoira_art_def single_art_def mk_artwork_def mk_urls_def
      example_world_def flaky_world_def offline_world_def ugoira_world_def mk_world_def
      some_data_def static_chain_amended_def example_metadata_def ILLUST_detail_def
      super_detail_def ILLUST_ugoira_metadata_def client_get_def io_bind_Inr io_bind_Inl
      io_lift_def
  have a: "length (requests (snd (ILLUST_follow (example_world manga_art) None))) = 1
     \<and> length (requests (snd (ILLUST_download (example_world manga_art) 7 False PyNone None))) = 2"
    using inst [where w = "example_world manga_art" and full = False
        and res = "\<lparr>illust_of = manga_art\<rparr>"]
    by (simp add: defs)
  have b: "length (requests (snd (ILLUST_download (example_world manga_art) 7 True PyNone None))) = 3"
    using inst [where w = "example_world manga_art" and full = True
        and res = "\<lparr>illust_of = manga_art\<rparr>"]
    by (simp add: defs)
  have c: "length (requests (snd (ILLUST_download (flaky_world manga_art) 7 True PyNone None))) = 2"
    using inst [where w = "flaky_world manga_art" and full = True
        and res = "\<lparr>illust_of = manga_art\<rparr>"]
    by (simp add: defs)
  have d: "length (requests (snd (ILLUST_download ugoira_world 7 True PyNone None))) = 1
     \<and> length (requests (snd (ILLUST_download_ugoira ugoira_world 7 ''jpg''))) = 2"
    using inst [where w = ugoira_world and full = True and res = "\<lparr>illust_of = ugoira_art\<rparr>"]
    by (simp add: defs)
  have e: "length (requests (snd (ILLUST_download offline_world 7 True PyNone None))) = 1
     \<and> length (requests (snd (ILLUST_download_ugoira offline_world 7 ''jpg''))) = 1"
    using inst [where w = offline_world and full = True and res = "\<lparr>illust_of = single_art\<rparr>"]
    by (simp add: defs)
  from a b c d e show ?thesis by simp
qed

text \<open>
  A call of \<open>download\<close> or \<open>download_ugoira\<close> issues more than one request.
\<close>

theorem one_request_per_call_counterexample:
  "length (requests (snd (ILLUST_download (example_world manga_art) 7 True PyNone None))) = 3
   \<and> length (requests (snd (ILLUST_download (example_world single_art) 7 False PyNone None))) = 2
   \<and> length (requests (snd (ILLUST_download_ugoira ugoira_world 7 ''zip''))) = 2"
proof -
  have a: "snd (ILLUST_download (example_world manga_art) 7 True PyNone None) =
      [SectionDetail 7 PyNone, Download (Some ''https://i.example/p0.jpg'') None,
       Download (Some ''https://i.example/p1_large.jpg'') None]"
    using ILLUST_download_full [of "example_world manga_art" 7 PyNone PyNone
          "\<lparr>illust_of = manga_art\<rparr>" True None]
    by (simp add: manga_art_def mk_artwork_def mk_urls_def example_world_def mk_world_def
        some_data_def str_opt_def py_or_def client_download_def io_bind_Inr io_return_def)
  have b: "snd (ILLUST_download (example_world single_art) 7 False PyNone None) =
      [SectionDetail 7 PyNone, Download (Some ''https://i.example/orig.jpg'') None]"
    using ILLUST_download_single [of "example_world single_art" 7 PyNone PyNone
          "\<lparr>illust_of = single_art\<rparr>" False None]
    by (simp add: single_art_def mk_artwork_def mk_urls_def example_world_def mk_world_def
        some_data_def static_chain_amended_def)
  have c: "snd (ILLUST_download_ugoira ugoira_world 7 ''zip'') =
      [Get (V1_API ''ugoira/metadata'') [(''illust_id'', PyInt 7)],
       Download (Some ''https://i.example/u.zip'') None, ZipFileOpen [1, 2, 3]]"
    using ILLUST_download_ugoira_zip [of ugoira_world 7 PyNone
          "\<lparr>metadata = example_metadata\<rparr>" "[1, 2, 3]" example_zip]
    by (simp add: ugoira_world_def example_world_def mk_world_def some_data_def zip_choice_def
        py_or_def example_metadata_def mk_urls_def)
  show ?thesis by (simp add: a b c requests_def)
qed

section \<open>Animated artworks\<close>

text \<open>
  C2, as amended: \<open>download_ugoira\<close>, as a method of \<open>ILLUST\<close> and of an ugoira
  \<open>ArtWork\<close> alike, given the manifest and a delivered payload that opens as an archive.
  With type \<open>zip\<close> it returns the archive alone and reads no member. When every file of
  the manifest names a member of the archive that can be read, type \<open>jpg\<close> returns one
  payload per manifest entry, the \<open>k\<close>-th payload being the content of the member named by
  the \<open>k\<close>-th entry, the members being read in the manifest's order; type \<open>all\<close> returns
  the same list together with the archive. Otherwise, for every type but \<open>zip\<close>, nothing
  is returned: the members are read in the manifest's order up to the first entry that
  names no member or a member that cannot be read, and the error of that entry
  propagates, \<open>KeyError\<close> with the file name for a name that is no member.
\<close>

theorem download_ugoira_frames_in_manifest_order:
  assumes "artwork_type self = ugoira"
    and "get_json w (V1_API ''ugoira/metadata'') [(''illust_id'', PyInt (artwork_id self))] = Inr js"
    and "parse_ugoira w js = Inr res"
    and "download_bytes w (zip_choice (metadata res)) None = Inr (Some d)"
    and "open_zip w d = Inr z"
  shows
    "ArtWork_download_ugoira self (Some w) w' ty = ILLUST_download_ugoira w (artwork_id self) ty
     \<and> ILLUST_download_ugoira w (artwork_id self) ''zip'' =
         (Inr (Some (RZip z)),
          [Get (V1_API ''ugoira/metadata'') [(''illust_id'', PyInt (artwork_id self))],
           Download (zip_choice (metadata res)) None, ZipFileOpen d])
     \<and> ((\<forall>f \<in> set (frames (metadata res)). readable z (frame_file f)) \<longrightarrow>
          fst (ILLUST_download_ugoira w (artwork_id self) ''jpg'') =
            Inr (Some (RFrames (frame_payloads z (frames (metadata res)))))
          \<and> fst (ILLUST_download_ugoira w (artwork_id self) ''all'') =
            Inr (Some (RDict z (frame_payloads z (frames (metadata res)))))
          \<and> filter is_zip_access (snd (ILLUST_download_ugoira w (artwork_id self) ''jpg'')) =
            ZipFileOpen d # map (\<lambda>f. ZipRead (frame_file f)) (frames (metadata res))
          \<and> length (frame_payloads z (frames (metadata res))) = length (frames (metadata res))
          \<and> (\<forall>k < length (frames (metadata res)).
                z (frame_file (frames (metadata res) ! k)) =
                  Some (Inr (frame_payloads z (frames (metadata res)) ! k))))
     \<and> (ty \<noteq> ''zip'' \<and> frames (metadata res) = pre @ g # post
          \<and> (\<forall>f \<in> set pre. readable z (frame_file f)) \<longrightarrow>
          (z (frame_file g) = None \<longrightarrow>
             ILLUST_download_ugoira w (artwork_id self) ty =
               (Inl (KeyError (frame_file g)),
                [Get (V1_API ''ugoira/metadata'') [(''illust_id'', PyInt (artwork_id self))],
                 Download (zip_choice (metadata res)) None, ZipFileOpen d]
                @ map (\<lambda>f. ZipRead (frame_file f)) (pre @ [g])))
          \<and> (z (frame_file g) = Some (Inl e) \<longrightarrow>
             ILLUST_download_ugoira w (artwork_id self) ty =
               (Inl e,
                [Get (V1_API ''ugoira/metadata'') [(''illust_id'', PyInt (artwork_id self))],
                 Download (zip_choice (metadata res)) None, ZipFileOpen d]
                @ map (\<lambda>f. ZipRead (frame_file f)) (pre @ [g]))))
     \<and> (ty \<noteq> ''zip'' \<and> \<not> (\<forall>f \<in> set (frames (metadata res)).
         readable z (frame_file f)) \<longrightarrow>
          (\<exists>err. fst (ILLUST_download_ugoira w (artwork_id self) ty) = Inl err))"
proof (intro conjI impI)
  show "ArtWork_download_ugoira self (Some w) w' ty = ILLUST_download_ugoira w (artwork_id self) ty"
    by (rule ArtWork_download_ugoira_eq_ILLUST [OF assms(1,2,3)])
  show "ILLUST_download_ugoira w (artwork_id self) ''zip'' =
         (Inr (Some (RZip z)),
          [Get (V1_API ''ugoira/metadata'') [(''illust_id'', PyInt (artwork_id self))],
           Download (zip_choice (metadata res)) None, ZipFileOpen d])"
    by (rule ILLUST_download_ugoira_zip [OF assms(2,3,4,5)])
next
  assume present: "\<forall>f \<in> set (frames (metadata res)). readable z (frame_file f)"
  note fr = ILLUST_download_ugoira_frames [OF assms(2,3,4,5) present]
  show "fst (ILLUST_download_ugoira w (artwork_id self) ''jpg'') =
            Inr (Some (RFrames (frame_payloads z (frames (metadata res)))))"
    by (simp add: fr)
  show "fst (ILLUST_download_ugoira w (artwork_id self) ''all'') =
            Inr (Some (RDict z (frame_payloads z (frames (metadata res)))))"
    by (simp add: fr)
  show "filter is_zip_access (snd (ILLUST_download_ugoira w (artwork_id self) ''jpg'')) =
            ZipFileOpen d # map (\<lambda>f. ZipRead (frame_file f)) (frames (metadata res))"
    by (simp add: fr filter_map comp_def)
  show "length (frame_payloads z (frames (metadata res))) = length (frames (metadata res))"
    using frame_payloads_nth [of z "frames (metadata res)"] by simp
  show "\<forall>k < length (frames (metadata res)).
                z (frame_file (frames (metadata res) ! k)) =
                  Some (Inr (frame_payloads z (frames (metadata res)) ! k))"
    using frame_payloads_nth [of z "frames (metadata res)"] present by simp
next
  assume h: "ty \<noteq> ''zip'' \<and> frames (metadata res) = pre @ g # post
          \<and> (\<forall>f \<in> set pre. readable z (frame_file f))"
    and n: "z (frame_file g) = None"
  from n have "fst (zip_read z (frame_file g)) = Inl (KeyError (frame_file g))"
    by (simp add: zip_read_def)
  with h show "ILLUST_download_ugoira w (artwork_id self) ty =
               (Inl (KeyError (frame_file g)),
                [Get (V1_API ''ugoira/metadata'') [(''illust_id'', PyInt (artwork_id self))],
                 Download (zip_choice (metadata res)) None, ZipFileOpen d]
                @ map (\<lambda>f. ZipRead (frame_file f)) (pre @ [g]))"
    by (intro ILLUST_download_ugoira_first_failure [OF assms(2,3,4,5)]) simp_all
next
  assume h: "ty \<noteq> ''zip'' \<and> frames (metadata res) = pre @ g # post
          \<and> (\<forall>f \<in> set pre. readable z (frame_file f))"
    and n: "z (frame_file g) = Some (Inl e)"
  from n have "fst (zip_read z (frame_file g)) = Inl e"
    by (simp add: zip_read_def)
  with h show "ILLUST_download_ugoira w (artwork_id self) ty =
               (Inl e,
                [Get (V1_API ''ugoira/metadata'') [(''illust_id'', PyInt (artwork_id self))],
                 Download (zip_choice (metadata res)) None, ZipFileOpen d]
                @ map (\<lambda>f. ZipRead (frame_file f)) (pre @ [g]))"
    by (intro ILLUST_download_ugoira_first_failure [OF assms(2,3,4,5)]) simp_all
next
  assume h: "ty \<noteq> ''zip'' \<and> \<not> (\<forall>f \<in> set (frames (metadata res)).
      readable z (frame_file f))"
  then have "\<exists>f \<in> set (frames (metadata res)). \<not> readable z (frame_file f)" by simp
  then obtain pre g post where sp: "frames (metadata res) = pre @ g # post"
    and bad: "\<not> readable z (frame_file g)"
    and good: "\<forall>f \<in> set pre. \<not> \<not> readable z (frame_file f)"
    using split_list_first_prop [of "frames (metadata res)" "\<lambda>f. \<not> readable z (frame_file f)"]
    by blast
  from bad obtain err where err: "fst (zip_read z (frame_file g)) = Inl err"
    by (auto simp add: readable_def zip_read_def split: option.splits sum.splits)
  from good have good': "\<forall>f \<in> set pre. readable z (frame_file f)" by simp
  from h have ty: "ty \<noteq> ''zip''" by simp
  show "\<exists>err. fst (ILLUST_download_ugoira w (artwork_id self) ty) = Inl err"
    using ILLUST_download_ugoira_first_failure [OF assms(2,3,4,5) sp good' err ty] by simp
qed

theorem download_ugoira_frames_in_manifest_order_witness:
  "ArtWork_download_ugoira ugoira_art (Some ugoira_world) ugoira_world ''jpg'' =
     ILLUST_download_ugoira ugoira_world 7 ''jpg''
   \<and> fst (ILLUST_download_ugoira ugoira_world 7 ''zip'') = Inr (Some (RZip example_zip))
   \<and> snd (ILLUST_download_ugoira ugoira_world 7 ''zip'') =
       [Get (V1_API ''ugoira/metadata'') [(''illust_id'', PyInt 7)],
        Download (Some ''https://i.example/u.zip'') None, ZipFileOpen [1, 2, 3]]
   \<and> fst (ILLUST_download_ugoira ugoira_world 7 ''jpg'') = Inr (Some (RFrames [[3], [1, 2]]))
   \<and> fst (ILLUST_download_ugoira ugoira_world 7 ''all'') =
       Inr (Some (RDict example_zip [[3], [1, 2]]))
   \<and> filter is_zip_access (snd (ILLUST_download_ugoira ugoira_world 7 ''jpg'')) =
       [ZipFileOpen [1, 2, 3], ZipRead ''000001.jpg'', ZipRead ''000000.jpg'']
   \<and> ILLUST_download_ugoira mismatch_world 7 ''all'' =
       (Inl (KeyError ''000002.jpg''),
        [Get (V1_API ''ugoira/metadata'') [(''illust_id'', PyInt 7)],
         Download (Some ''https://i.example/u.zip'') None, ZipFileOpen [1, 2, 3],
         ZipRead ''000000.jpg'', ZipRead ''000002.jpg''])
   \<and> ILLUST_download_ugoira damaged_world 7 ''jpg'' =
       (Inl BadZipFile,
        [Get (V1_API ''ugoira/metadata'') [(''illust_id'', PyInt 7)],
         Download (Some ''https://i.example/u.zip'') None, ZipFileOpen [1, 2, 3],
         ZipRead ''000001.jpg''])"
  using download_ugoira_frames_in_manifest_order [where self = ugoira_art and w = ugoira_world
          and js = PyNone and res = "\<lparr>metadata = example_metadata\<rparr>" and d = "[1, 2, 3]"
          and z = example_zip and w' = ugoira_world and ty = "''jpg''" and pre = "[]"
          and g = "\<lparr>frame_file = ''000001.jpg'', delay = 40\<rparr>"
          and post = "[\<lparr>frame_file = ''000000.jpg'', delay = 60\<rparr>]" and e = BadZipFile]
        download_ugoira_frames_in_manifest_order [where self = ugoira_art and w = mismatch_world
          and js = PyNone and res = "\<lparr>metadata = mismatch_metadata\<rparr>" and d = "[1, 2, 3]"
          and z = example_zip and w' = mismatch_world and ty = "''all''"
          and pre = "[\<lparr>frame_file = ''000000.jpg'', delay = 40\<rparr>]"
          and g = "\<lparr>frame_file = ''000002.jpg'', delay = 60\<rparr>"
          and post = "[]" and e = BadZipFile]
        download_ugoira_frames_in_manifest_order [where self = ugoira_art and w = damaged_world
          and js = PyNone and res = "\<lparr>metadata = example_metadata\<rparr>" and d = "[1, 2, 3]"
          and z = damaged_zip and w' = damaged_world and ty = "''jpg''" and pre = "[]"
          and g = "\<lparr>frame_file = ''000001.jpg'', delay = 40\<rparr>"
          and post = "[\<lparr>frame_file = ''000000.jpg'', delay = 60\<rparr>]" and e = BadZipFile]
  by (simp add: ugoira_world_def mismatch_world_def damaged_world_def ugoira_art_def
      mk_artwork_def mk_urls_def example_world_def mk_world_def some_data_def zip_choice_def
      py_or_def example_metadata_def mismatch_metadata_def frame_payloads_def member_bytes_def
      readable_def example_zip_def damaged_zip_def)

text \<open>
  A manifest may name a file that the archive does not hold: then no list is returned,
  the \<open>KeyError\<close> of the archive propagates.
\<close>

theorem download_ugoira_missing_member_counterexample:
  "fst (ILLUST_download_ugoira mismatch_world 7 ''jpg'') = Inl (KeyError ''000002.jpg'')
   \<and> fst (ArtWork_download_ugoira ugoira_art (Some mismatch_world) mismatch_world ''jpg'') =
       Inl (KeyError ''000002.jpg'')"
proof -
  have m: "get_json mismatch_world (V1_API ''ugoira/metadata'') [(''illust_id'', PyInt 7)] = Inr PyNone"
    and q: "parse_ugoira mismatch_world PyNone = Inr \<lparr>metadata = mismatch_metadata\<rparr>"
    by (simp_all add: mismatch_world_def mk_world_def)
  have a: "fst (ILLUST_download_ugoira mismatch_world 7 ''jpg'') = Inl (KeyError ''000002.jpg'')"
    unfolding ILLUST_download_ugoira_unfold [OF m q]
    by (simp add: mismatch_world_def mk_world_def mismatch_metadata_def mk_urls_def py_or_def
        some_data_def example_zip_def client_download_def ZipFile_new_def zip_read_def
        io_bind_Inr io_bind_Inl io_return_def)
  have u: "artwork_type ugoira_art = ugoira" and i: "artwork_id ugoira_art = 7"
    by (simp_all add: ugoira_art_def mk_artwork_def)
  have b: "ArtWork_download_ugoira ugoira_art (Some mismatch_world) mismatch_world ''jpg'' =
      ILLUST_download_ugoira mismatch_world 7 ''jpg''"
    using ArtWork_download_ugoira_eq_ILLUST [of ugoira_art mismatch_world PyNone
        "\<lparr>metadata = mismatch_metadata\<rparr>" mismatch_world "''jpg''"] u i m q
    by simp
  show ?thesis by (simp add: a b)
qed

text \<open>
  C8: when the transport returns no data for the archive, \<open>download_ugoira\<close> returns
  \<open>None\<close> for every type, raises nothing, and neither opens an archive nor reads a
  member: its events are the metadata request and the download.
\<close>

theorem download_ugoira_no_data:
  assumes "artwork_type self = ugoira"
    and "get_json w (V1_API ''ugoira/metadata'') [(''illust_id'', PyInt (artwork_id self))] = Inr js"
    and "parse_ugoira w js = Inr res"
    and "download_bytes w (zip_choice (metadata res)) None = Inr None"
  shows
    "ILLUST_download_ugoira w (artwork_id self) ty =
       (Inr None,
        [Get (V1_API ''ugoira/metadata'') [(''illust_id'', PyInt (artwork_id self))],
         Download (zip_choice (metadata res)) None])
     \<and> ArtWork_download_ugoira self (Some w) w' ty =
       (Inr None,
        [Get (V1_API ''ugoira/metadata'') [(''illust_id'', PyInt (artwork_id self))],
         Download (zip_choice (metadata res)) None])
     \<and> filter is_zip_access (snd (ILLUST_download_ugoira w (artwork_id self) ty)) = []
     \<and> filter is_zip_access (snd (ArtWork_download_ugoira self (Some w) w' ty)) = []"
  by (simp add: ILLUST_download_ugoira_None [OF assms(2,3,4)]
      ArtWork_download_ugoira_None [OF assms])

theorem download_ugoira_no_data_witness:
  "ILLUST_download_ugoira no_data_world 7 ''jpg'' =
     (Inr None, [Get (V1_API ''ugoira/metadata'') [(''illust_id'', PyInt 7)],
                 Download (Some ''https://i.example/u.zip'') None])
   \<and> ArtWork_download_ugoira ugoira_art (Some no_data_world) no_data_world ''all'' =
     (Inr None, [Get (V1_API ''ugoira/metadata'') [(''illust_id'', PyInt 7)],
                 Download (Some ''https://i.example/u.zip'') None])"
  using download_ugoira_no_data [of ugoira_art no_data_world PyNone
          "\<lparr>metadata = example_metadata\<rparr>" "''jpg''" no_data_world]
        download_ugoira_no_data [of ugoira_art no_data_world PyNone
          "\<lparr>metadata = example_metadata\<rparr>" "''all''" no_data_world]
  by (simp add: no_data_world_def ugoira_art_def mk_artwork_def mk_urls_def
      mk_world_def no_data_def zip_choice_def py_or_def example_metadata_def)

end
